theory Spec2Isabelle
  imports Complex_Main
begin

section \<open>JavaScript numbers\<close>

text \<open>
  The layer computes with JavaScript numbers. A number is modelled as an exact real or
  one of the three special values of IEEE 754; rounding of finite results and the sign
  of zero are not modelled (every zero is \<open>+0\<close>: the divisor of the weight pass starts
  at \<open>0\<close> and only grows through \<open>Math.max\<close>, so it is never \<open>-0\<close>).
\<close>

datatype jsnum = Num real | PosInfinity | NegInfinity | NaN

text \<open>\<open>ToNumber\<close> of a property read: a missing property reads \<open>undefined\<close>,
  and \<open>ToNumber(undefined)\<close> is \<open>NaN\<close>.\<close>

fun to_number :: "jsnum option \<Rightarrow> jsnum" where
  "to_number None = NaN"
| "to_number (Some v) = v"

text \<open>\<open>Math.max(a, b)\<close>: \<open>NaN\<close> if either argument is \<open>NaN\<close>.\<close>

fun js_max :: "jsnum \<Rightarrow> jsnum \<Rightarrow> jsnum" where
  "js_max NaN b = NaN"
| "js_max a NaN = NaN"
| "js_max PosInfinity b = PosInfinity"
| "js_max a PosInfinity = PosInfinity"
| "js_max NegInfinity b = b"
| "js_max a NegInfinity = a"
| "js_max (Num x) (Num y) = Num (max x y)"

text \<open>The operator \<open>a / b\<close>: no exception, \<open>0 / 0\<close> is \<open>NaN\<close> and a non-zero
  number over zero is an infinity.\<close>

fun js_div :: "jsnum \<Rightarrow> jsnum \<Rightarrow> jsnum" where
  "js_div NaN b = NaN"
| "js_div a NaN = NaN"
| "js_div (Num x) (Num y) =
     (if y = 0 then (if x = 0 then NaN else if 0 < x then PosInfinity else NegInfinity)
      else Num (x / y))"
| "js_div (Num x) b = Num 0"
| "js_div PosInfinity (Num y) = (if 0 \<le> y then PosInfinity else NegInfinity)"
| "js_div NegInfinity (Num y) = (if 0 \<le> y then NegInfinity else PosInfinity)"
| "js_div a b = NaN"

text \<open>The operator \<open>a + b\<close> on numbers, where \<open>undefined\<close> has already become
  \<open>NaN\<close>.\<close>

fun js_add :: "jsnum \<Rightarrow> jsnum \<Rightarrow> jsnum" where
  "js_add NaN b = NaN"
| "js_add a NaN = NaN"
| "js_add (Num x) (Num y) = Num (x + y)"
| "js_add PosInfinity NegInfinity = NaN"
| "js_add NegInfinity PosInfinity = NaN"
| "js_add (Num x) b = b"
| "js_add a b = a"

text \<open>Strict equality \<open>a === b\<close> on values that are a number or \<open>undefined\<close>
  (\<open>None\<close>): \<open>NaN\<close> is not equal to itself.\<close>

definition js_strict_eq :: "jsnum option \<Rightarrow> jsnum option \<Rightarrow> bool" where
  "js_strict_eq a b = (a = b \<and> a \<noteq> Some NaN)"

text \<open>\<open>Math.round(x)\<close> of a finite number: the nearest integer, a half rounding up.\<close>

definition js_round :: "real \<Rightarrow> int" where
  "js_round x = \<lfloor>x + 1 / 2\<rfloor>"

section \<open>Features and the weight pass of \<open>syncLayerWithMB\<close>\<close>

record feature =
  geometry :: "real \<times> real"
  properties :: "string \<rightharpoonup> jsnum"

definition scaledPropertyName :: string where
  "scaledPropertyName = ''__kbn_heatmap_weight__''"

definition propertyName :: string where
  "propertyName = ''doc_count''"

text \<open>The first loop of \<open>syncLayerWithMB\<close>:
  \<^verbatim>\<open>max = Math.max(features[i].properties[propertyName], max)\<close> for each feature in
  order, from the value of \<open>max\<close> so far.\<close>

fun max_loop :: "feature list \<Rightarrow> jsnum \<Rightarrow> jsnum" where
  "max_loop [] mx = mx"
| "max_loop (f # fs) mx = max_loop fs (js_max (to_number (properties f propertyName)) mx)"

text \<open>The body of the second loop:
  \<^verbatim>\<open>properties[scaledPropertyName] = properties[propertyName] / max\<close>.\<close>

definition set_weight :: "jsnum \<Rightarrow> feature \<Rightarrow> feature" where
  "set_weight mx f =
     f\<lparr>properties := (properties f)(scaledPropertyName \<mapsto>
          js_div (to_number (properties f propertyName)) mx)\<rparr>"

text \<open>Both loops: \<open>let max = 0\<close>, the maximum, then the division for every feature.\<close>

definition normalizeWeights :: "feature list \<Rightarrow> feature list" where
  "normalizeWeights features =
     (let mx = max_loop features (Num 0) in map (set_weight mx) features)"

text \<open>The data part of \<open>syncLayerWithMB\<close>: what is passed to \<open>setData\<close> of the map
  source, if anything. \<open>featureCollection\<close> is \<open>None\<close> when there is no source data
  request or it holds no data; \<open>bound\<close> says that the collection is the very object
  already bound to the map (\<open>featureCollection === dataBoundToMap\<close>).\<close>

definition syncLayerWithMB_data :: "feature list option \<Rightarrow> bool \<Rightarrow> feature list option" where
  "syncLayerWithMB_data featureCollection bound =
     (case featureCollection of
        None \<Rightarrow> Some []
      | Some features \<Rightarrow> if \<not> bound then Some (normalizeWeights features) else None)"

text \<open>The weight of a feature, as the style reads it.\<close>

definition weight :: "feature \<Rightarrow> jsnum option" where
  "weight f = properties f scaledPropertyName"

definition doc_count :: "feature \<Rightarrow> jsnum" where
  "doc_count f = to_number (properties f propertyName)"

section \<open>Viewport state, fetch metadata and the layer\<close>

record extent =
  min_lon :: real
  min_lat :: real
  max_lon :: real
  max_lat :: real

record timeRange =
  range_from :: string
  range_to :: string

text \<open>\<open>dataFilters\<close>, the viewport state handed to \<open>syncData\<close>. A field that can be
  \<open>undefined\<close> is an option; the refresh tick is a timestamp.\<close>

record dataFilters =
  zoom :: real
  buffer :: "extent option"
  timeFilters :: "timeRange option"
  refreshTimerLastTriggeredAt :: "nat option"

text \<open>The metadata of a fetch: \<^verbatim>\<open>{ ...dataFilters, precision: targetPrecision }\<close>.\<close>

record dataMeta = dataFilters +
  precision :: jsnum

record dataRequest =
  request_meta :: dataMeta
  request_data :: "feature list option"

record sourceDescriptor =
  indexPatternId :: string
  geoField :: string

text \<open>The layer as \<open>syncData\<close> sees it: its id (\<open>getId()\<close>), its descriptor's visibility and zoom range,
  the style's \<open>getPrecisionRefinementDelta()\<close>, the result of \<open>getDisplayName()\<close>, the
  source's descriptor and the source data request, if there is one.\<close>

record layer =
  layer_id :: string
  isVisible :: bool
  minZoom :: real
  maxZoom :: real
  precisionRefinementDelta :: int
  displayName :: string
  layer_source :: sourceDescriptor
  sourceDataRequest :: "dataRequest option"

text \<open>Modelled from the spec: \<open>showAtZoomLevel\<close> is a method of the base class
  \<open>ALayer\<close> (\<open>./layer\<close>), which is not among the sources. The spec's guard (b) is that
  the layer is within its configured zoom range, the \<open>minZoom\<close> and \<open>maxZoom\<close> of the
  descriptor.\<close>

definition showAtZoomLevel :: "layer \<Rightarrow> real \<Rightarrow> bool" where
  "showAtZoomLevel l z = (minZoom l \<le> z \<and> z \<le> maxZoom l)"

text \<open>\<^verbatim>\<open>dataMeta = sourceDataRequest ? sourceDataRequest.getMeta() : {}\<close>: without a
  request the metadata is the empty object (\<open>None\<close> here), every field of which reads
  \<open>undefined\<close>.\<close>

definition getMeta :: "layer \<Rightarrow> dataMeta option" where
  "getMeta l = map_option request_meta (sourceDataRequest l)"

definition meta_precision :: "dataMeta option \<Rightarrow> jsnum option" where
  "meta_precision m = map_option precision m"

definition meta_timeFilters :: "dataMeta option \<Rightarrow> timeRange option" where
  "meta_timeFilters m = (case m of None \<Rightarrow> None | Some d \<Rightarrow> timeFilters d)"

definition meta_refreshTimer :: "dataMeta option \<Rightarrow> nat option" where
  "meta_refreshTimer m = (case m of None \<Rightarrow> None | Some d \<Rightarrow> refreshTimerLastTriggeredAt d)"

definition meta_buffer :: "dataMeta option \<Rightarrow> extent option" where
  "meta_buffer m = (case m of None \<Rightarrow> None | Some d \<Rightarrow> buffer d)"

text \<open>JavaScript truthiness of the refresh tick: \<open>undefined\<close> and \<open>0\<close> are falsy.\<close>

definition truthy_tick :: "nat option \<Rightarrow> bool" where
  "truthy_tick t = (case t of None \<Rightarrow> False | Some n \<Rightarrow> n \<noteq> 0)"

text \<open>Modelled from the spec: the extent-containment check that \<open>updateDueToExtent\<close>
  makes is not among the sources. By the spec an extent is an axis-aligned rectangle
  in geographic coordinates, and the previous extent covers the current one when it
  contains it.\<close>

definition extent_covers :: "extent \<Rightarrow> extent \<Rightarrow> bool" where
  "extent_covers previous current =
     (min_lon previous \<le> min_lon current \<and> max_lon current \<le> max_lon previous \<and>
      min_lat previous \<le> min_lat current \<and> max_lat current \<le> max_lat previous)"

text \<open>Modelled from the spec: \<open>updateDueToExtent\<close> is a method of the base class
  \<open>ALayer\<close> (\<open>./layer\<close>), which is not among the sources. The spec's rule is that the
  current bounding extent is not already covered by the previous fetch's extent; with
  no previous extent nothing covers the current one.\<close>

definition updateDueToExtent :: "sourceDescriptor \<Rightarrow> dataMeta option \<Rightarrow> dataFilters \<Rightarrow> bool" where
  "updateDueToExtent src m df =
     (case meta_buffer m of
        None \<Rightarrow> True
      | Some previous \<Rightarrow>
          (case buffer df of None \<Rightarrow> True | Some current \<Rightarrow> \<not> extent_covers previous current))"

section \<open>The precision of a zoom level\<close>

text \<open>\<open>ZOOM_TO_PRECISION\<close> (\<open>../utils/zoom_to_precision\<close>) is not among the sources: the
  table is a parameter, a finite object from integer keys to precisions. A key it does
  not have reads \<open>undefined\<close>.
  \<^verbatim>\<open>ZOOM_TO_PRECISION[Math.round(dataFilters.zoom)] + this._style.getPrecisionRefinementDelta()\<close>\<close>

definition targetPrecision :: "(int \<rightharpoonup> int) \<Rightarrow> real \<Rightarrow> int \<Rightarrow> jsnum" where
  "targetPrecision ZOOM_TO_PRECISION z delta =
     js_add (to_number (map_option (\<lambda>p. Num (of_int p)) (ZOOM_TO_PRECISION (js_round z))))
            (Num (of_int delta))"

text \<open>A table given by its rows for the zoom levels \<open>0, 1, \<dots>, N\<close>.\<close>

definition table_of :: "int list \<Rightarrow> (int \<rightharpoonup> int)" where
  "table_of rows k = (if 0 \<le> k \<and> k < int (length rows) then Some (rows ! nat k) else None)"

section \<open>The refetch decision of \<open>syncData\<close>\<close>

definition isSamePrecision :: "(int \<rightharpoonup> int) \<Rightarrow> layer \<Rightarrow> dataFilters \<Rightarrow> bool" where
  "isSamePrecision tbl l df =
     js_strict_eq (meta_precision (getMeta l))
       (Some (targetPrecision tbl (zoom df) (precisionRefinementDelta l)))"

definition isSameTime :: "layer \<Rightarrow> dataFilters \<Rightarrow> bool" where
  "isSameTime l df = (meta_timeFilters (getMeta l) = timeFilters df)"

definition updateDueToRefreshTimer :: "layer \<Rightarrow> dataFilters \<Rightarrow> bool" where
  "updateDueToRefreshTimer l df =
     (truthy_tick (refreshTimerLastTriggeredAt df) \<and>
      \<not> (meta_refreshTimer (getMeta l) = refreshTimerLastTriggeredAt df))"

text \<open>Lines 95 to 111 of \<open>syncData\<close>: the function returns without fetching when
  \<^verbatim>\<open>isSamePrecision && isSameTime && !updateDueToExtent && !updateDueToRefreshTimer\<close>.\<close>

definition shouldRefetch :: "(int \<rightharpoonup> int) \<Rightarrow> layer \<Rightarrow> dataFilters \<Rightarrow> bool" where
  "shouldRefetch tbl l df =
     (if isSamePrecision tbl l df \<and> isSameTime l df \<and>
         \<not> updateDueToExtent (layer_source l) (getMeta l) df \<and>
         \<not> updateDueToRefreshTimer l df
      then False else True)"

definition newDataMeta :: "(int \<rightharpoonup> int) \<Rightarrow> layer \<Rightarrow> dataFilters \<Rightarrow> dataMeta" where
  "newDataMeta tbl l df =
     \<lparr>zoom = zoom df, buffer = buffer df, timeFilters = timeFilters df,
      refreshTimerLastTriggeredAt = refreshTimerLastTriggeredAt df,
      precision = targetPrecision tbl (zoom df) (precisionRefinementDelta l)\<rparr>"

text \<open>What \<open>syncData\<close> does: it returns, or it calls \<open>_fetchNewData\<close> with the new
  metadata.\<close>

datatype sync_decision = NoFetch | Fetch dataMeta

definition syncData_decision :: "(int \<rightharpoonup> int) \<Rightarrow> layer \<Rightarrow> dataFilters \<Rightarrow> sync_decision" where
  "syncData_decision tbl l df =
     (if \<not> isVisible l \<or> \<not> showAtZoomLevel l (zoom df) then NoFetch
      else if buffer df = None then NoFetch
      else if \<not> shouldRefetch tbl l df then NoFetch
      else Fetch (newDataMeta tbl l df))"

section \<open>The geohash grid source\<close>

datatype js_error = Error string | TypeError string

fun message :: "js_error \<Rightarrow> string" where
  "message (Error m) = m"
| "message (TypeError m) = m"

text \<open>What the source reads of a field object: its \<open>name\<close> and its \<open>type\<close>, each of
  which can be \<open>undefined\<close>. A field of an index pattern has both.\<close>

record field =
  field_name :: "string option"
  field_type :: "string option"

text \<open>An index pattern: its title and the fields that \<open>fields.byName\<close> holds, by name.\<close>

record indexPattern =
  title :: string
  fields_byName :: "string \<rightharpoonup> field"

text \<open>\<open>fields.byName\<close> is a plain object, so a key it does not hold itself reads what
  \<open>Object.prototype\<close> has under this key. These are its keys; each holds a function but
  \<open>__proto__\<close>, which reads the prototype object itself. A function has a \<open>name\<close> (that
  of \<open>constructor\<close> is \<open>Object\<close>, that of the others is the key) and no \<open>type\<close>; the
  prototype object has neither.\<close>

definition object_prototype_keys :: "string list" where
  "object_prototype_keys =
     [''constructor'', ''__defineGetter__'', ''__defineSetter__'', ''hasOwnProperty'',
      ''__lookupGetter__'', ''__lookupSetter__'', ''isPrototypeOf'',
      ''propertyIsEnumerable'', ''toString'', ''valueOf'', ''__proto__'', ''toLocaleString'']"

definition object_prototype_member :: "string \<Rightarrow> field option" where
  "object_prototype_member k =
     (if k \<in> set object_prototype_keys
      then Some \<lparr>field_name =
                   (if k = ''constructor'' then Some ''Object''
                    else if k = ''__proto__'' then None else Some k),
                 field_type = None\<rparr>
      else None)"

text \<open>The read \<open>indexPattern.fields.byName[name]\<close>: \<open>None\<close> is \<open>undefined\<close>; every value
  it can read, a field object or a member of \<open>Object.prototype\<close>, is truthy.\<close>

definition byName :: "indexPattern \<Rightarrow> string \<Rightarrow> field option" where
  "byName ip k =
     (case fields_byName ip k of Some f \<Rightarrow> Some f | None \<Rightarrow> object_prototype_member k)"

text \<open>The \<open>params\<close> of an aggregation spec: \<open>{}\<close> for the metric, the five entries of
  the grid bucket.\<close>

datatype agg_params =
    NoParams
  | GridParams (grid_field: string) (isFilteredByCollar: bool) (useGeocentroid: bool)
      (autoPrecision: bool) (grid_precision: jsnum)

record aggConfig =
  agg_id :: string
  enabled :: bool
  agg_type :: string
  schema :: string
  params :: agg_params

definition makeAggConfigs :: "sourceDescriptor \<Rightarrow> jsnum \<Rightarrow> aggConfig list" where
  "makeAggConfigs src p =
     [\<lparr>agg_id = ''1'', enabled = True, agg_type = ''count'', schema = ''metric'',
       params = NoParams\<rparr>,
      \<lparr>agg_id = ''2'', enabled = True, agg_type = ''geohash_grid'', schema = ''segment'',
       params = GridParams (geoField src) False True False p\<rparr>]"

text \<open>The two filters are built by collaborators that are not among the sources:
  \<open>createExtentFilter(extent, geoField.name, geoField.type)\<close> and
  \<open>timeService.createFilter(indexPattern, timeFilters)\<close>. Each is its call.\<close>

datatype query_filter =
    ExtentFilter "extent option" "string option" "string option"
  | TimeFilter indexPattern "timeRange option"

text \<open>The arguments of \<open>getGeoJsonPointsWithTotalCount\<close>, destructured from one object:
  a property the caller does not pass reads \<open>undefined\<close>.\<close>

record fetch_args =
  arg_precision :: jsnum
  arg_extent :: "extent option"
  arg_timeFilters :: "timeRange option"
  arg_layerId :: "string option"
  arg_layerName :: string

text \<open>The fields set on the \<open>SearchSource\<close>: \<open>index\<close>, \<open>size\<close>, \<open>aggs\<close> (the DSL of the
  aggregation specs, which \<open>AggConfigs\<close> derives from \<open>_makeAggConfigs(precision)\<close>) and
  \<open>filter\<close>, the array the filter callback returns.\<close>

record searchFields =
  search_index :: indexPattern
  search_size :: nat
  search_aggs :: "aggConfig list"
  search_filter :: "query_filter list"

definition searchSource_fields ::
  "sourceDescriptor \<Rightarrow> indexPattern \<Rightarrow> field \<Rightarrow> fetch_args \<Rightarrow> searchFields" where
  "searchSource_fields src ip gf args =
     \<lparr>search_index = ip, search_size = 0,
      search_aggs = makeAggConfigs src (arg_precision args),
      search_filter =
        [ExtentFilter (arg_extent args) (field_name gf) (field_type gf),
         TimeFilter ip (arg_timeFilters args)]\<rparr>"

text \<open>The collaborators of a fetch and what each does when called: the index pattern
  service resolves or rejects; a statement of the \<open>try\<close> block before
  \<open>inspectorRequest\<close> is assigned (the \<open>SearchSource\<close> constructor, a \<open>setField\<close>,
  \<open>aggConfigs.toDsl()\<close>, \<open>requests.start\<close>) throws or none does;
  \<open>getRequestInspectorStats\<close>, after the assignment, throws or does not;
  \<open>searchSource.fetch()\<close>, with the statistics of its response, yields a response or
  throws; \<open>tabifyAggResponse\<close> with \<open>convertToGeoJson\<close> yields the features or throws.
  The constructor of \<open>AggConfigs\<close>, outside the \<open>try\<close> block, is taken not to throw.\<close>

record 'r services =
  indexPatternService_get :: "string \<Rightarrow> js_error + indexPattern"
  searchSource_setup :: "searchFields \<Rightarrow> js_error option"
  getRequestInspectorStats :: "searchFields \<Rightarrow> js_error option"
  searchSource_fetch :: "searchFields \<Rightarrow> js_error + 'r"
  convertToGeoJson :: "'r \<Rightarrow> js_error + feature list"

text \<open>What a fetch does to the outside, in order: calls of the request inspector, the
  search that \<open>searchSource.fetch()\<close> runs, with the fields set on the \<open>SearchSource\<close>,
  and calls of the three callbacks of \<open>syncData\<close>. The body of the request, which a
  promise hands to the inspector at a time of its own, is left out.\<close>

datatype event =
    ResetRequest "string option"
  | StartRequest "string option" string
  | RequestStats
  | SearchFetch searchFields
  | RequestOk
  | RequestError js_error
  | StartLoading dataMeta
  | StopLoading "feature list"
  | OnLoadError string

text \<open>Calling a method of \<open>undefined\<close> throws a \<open>TypeError\<close>; its message is the
  engine's (here V8's).\<close>

definition undefined_error_message :: string where
  "undefined_error_message = ''Cannot read property 'error' of undefined''"

text \<open>The \<open>catch\<close> block of the search request:
  \<^verbatim>\<open>inspectorRequest.error({ error }); throw new Error(`Elasticsearch search request failed, error: ${error.message}`)\<close>
  where \<open>inspectorRequest\<close> is \<open>undefined\<close> until \<open>requests.start\<close> has returned.\<close>

definition search_catch :: "bool \<Rightarrow> js_error \<Rightarrow> event list \<times> js_error" where
  "search_catch inspectorRequest_assigned error =
     (if inspectorRequest_assigned
      then ([RequestError error],
            Error (''Elasticsearch search request failed, error: '' @ message error))
      else ([], TypeError undefined_error_message))"

definition getGeoJsonPointsWithTotalCount ::
  "'r services \<Rightarrow> sourceDescriptor \<Rightarrow> fetch_args \<Rightarrow> event list \<times> (js_error + feature list)" where
  "getGeoJsonPointsWithTotalCount env src args =
     (let reset = [ResetRequest (arg_layerId args)] in
      case indexPatternService_get env (indexPatternId src) of
        Inl error \<Rightarrow>
          (reset, Inl (Error (''Unable to find Index pattern '' @ indexPatternId src)))
      | Inr ip \<Rightarrow>
          (case byName ip (geoField src) of
             None \<Rightarrow>
               (reset, Inl (Error (''Index pattern '' @ title ip @
                  '' no longer contains the geo field '' @ geoField src)))
           | Some gf \<Rightarrow>
               (let searchSource = searchSource_fields src ip gf args in
                case searchSource_setup env searchSource of
                  Some error \<Rightarrow>
                    (let (evs, thrown) = search_catch False error in (reset @ evs, Inl thrown))
                | None \<Rightarrow>
                    (let started = reset @
                           [StartRequest (arg_layerId args) (arg_layerName args)] in
                     case getRequestInspectorStats env searchSource of
                       Some error \<Rightarrow>
                         (let (evs, thrown) = search_catch True error
                          in (started @ evs, Inl thrown))
                     | None \<Rightarrow>
                         (let searching = started @ [RequestStats, SearchFetch searchSource] in
                          case searchSource_fetch env searchSource of
                            Inl error \<Rightarrow>
                              (let (evs, thrown) = search_catch True error
                               in (searching @ evs, Inl thrown))
                          | Inr resp \<Rightarrow>
                              (searching @ [RequestStats, RequestOk],
                               convertToGeoJson env resp))))))"

text \<open>Modelled from the spec: \<open>SearchSource\<close>, which turns the \<open>filter\<close> array into the
  query, is not among the sources. By the spec the filters of a query are ANDed: a
  document is in the scope of the query when every filter of the array holds of it.
  What one filter holds of is a parameter.\<close>

definition filters_hold :: "(query_filter \<Rightarrow> 'd \<Rightarrow> bool) \<Rightarrow> query_filter list \<Rightarrow> 'd \<Rightarrow> bool" where
  "filters_hold holds filters d = list_all (\<lambda>f. holds f d) filters"

text \<open>The three messages with which the source names a stage of the fetch: the lookup
  of the index pattern, the lookup of the geo field, the search request.\<close>

definition starts_with :: "string \<Rightarrow> string \<Rightarrow> bool" where
  "starts_with p msg = (take (length p) msg = p)"

definition ends_with :: "string \<Rightarrow> string \<Rightarrow> bool" where
  "ends_with x msg = (length x \<le> length msg \<and> drop (length msg - length x) msg = x)"

definition names_stage :: "sourceDescriptor \<Rightarrow> string \<Rightarrow> bool" where
  "names_stage src msg =
     (msg = ''Unable to find Index pattern '' @ indexPatternId src \<or>
      (starts_with ''Index pattern '' msg \<and>
       ends_with ('' no longer contains the geo field '' @ geoField src) msg) \<or>
      starts_with ''Elasticsearch search request failed, error: '' msg)"

section \<open>The fetch of the heatmap layer\<close>

text \<open>\<open>_fetchNewData\<close>: \<open>startLoading\<close>, then the source's fetch inside \<open>try\<close>. The
  object of the call has \<open>precision\<close>, \<open>extent\<close> (the buffer), \<open>timeFilters\<close> and
  \<open>layerName\<close>, and no \<open>layerId\<close>. On success the data goes to \<open>stopLoading\<close>; the
  \<open>catch\<close> hands \<open>error.message\<close> to \<open>onLoadError\<close>.\<close>

definition source_args :: "layer \<Rightarrow> dataMeta \<Rightarrow> fetch_args" where
  "source_args l m =
     \<lparr>arg_precision = precision m, arg_extent = buffer m, arg_timeFilters = timeFilters m,
      arg_layerId = None, arg_layerName = displayName l\<rparr>"

definition fetchNewData :: "'r services \<Rightarrow> layer \<Rightarrow> dataMeta \<Rightarrow> event list" where
  "fetchNewData env l m =
     (let (evs, result) = getGeoJsonPointsWithTotalCount env (layer_source l) (source_args l m)
      in StartLoading m # evs @
           (case result of
              Inr data \<Rightarrow> [StopLoading data]
            | Inl error \<Rightarrow> [OnLoadError (message error)]))"

definition syncData :: "'r services \<Rightarrow> (int \<rightharpoonup> int) \<Rightarrow> layer \<Rightarrow> dataFilters \<Rightarrow> event list" where
  "syncData env tbl l df =
     (case syncData_decision tbl l df of
        NoFetch \<Rightarrow> []
      | Fetch m \<Rightarrow> fetchNewData env l m)"

section \<open>The precision rule in the spec's words\<close>

text \<open>The spec's \<open>precision(zoomLevel, refinementDelta)\<close>, for a table with the rows of
  the zoom levels \<open>0..N\<close> and a backend whose valid precisions are \<open>lo..hi\<close>: the zoom
  is rounded, a rounded zoom outside the table is moved to the nearest defined entry,
  the delta is added and the sum is clamped to the valid range. It is what the claim
  about \<open>targetPrecision\<close> is compared with.\<close>

definition precision_spec :: "int list \<Rightarrow> int \<Rightarrow> int \<Rightarrow> real \<Rightarrow> int \<Rightarrow> int" where
  "precision_spec rows lo hi z delta =
     max lo (min hi (rows ! nat (max 0 (min (int (length rows) - 1) (js_round z))) + delta))"

section \<open>Concrete inputs\<close>

text \<open>Two buckets with 5 and 10 documents, and one bucket without documents.\<close>

definition scenario_features :: "feature list" where
  "scenario_features =
     [\<lparr>geometry = (0, 0), properties = [propertyName \<mapsto> Num 5]\<rparr>,
      \<lparr>geometry = (1, 1), properties = [propertyName \<mapsto> Num 10]\<rparr>]"

definition zero_features :: "feature list" where
  "zero_features = [\<lparr>geometry = (0, 0), properties = [propertyName \<mapsto> Num 0]\<rparr>]"

text \<open>A table for the zoom levels 0 to 5.\<close>

definition example_rows :: "int list" where
  "example_rows = [1, 2, 2, 2, 3, 3]"

definition example_extent :: extent where
  "example_extent = \<lparr>min_lon = - 10, min_lat = - 10, max_lon = 10, max_lat = 10\<rparr>"

definition example_filters :: dataFilters where
  "example_filters =
     \<lparr>zoom = 3, buffer = Some example_extent,
      timeFilters = Some \<lparr>range_from = ''t0'', range_to = ''t1''\<rparr>,
      refreshTimerLastTriggeredAt = None\<rparr>"

definition example_source :: sourceDescriptor where
  "example_source = \<lparr>indexPatternId = ''logs'', geoField = ''location''\<rparr>"

definition example_layer :: layer where
  "example_layer =
     \<lparr>layer_id = ''heatmap'', isVisible = True, minZoom = 0, maxZoom = 24,
      precisionRefinementDelta = 1, displayName = ''geohash_grid logs'',
      layer_source = example_source, sourceDataRequest = None\<rparr>"

definition example_pattern :: indexPattern where
  "example_pattern =
     \<lparr>title = ''logs-*'',
      fields_byName =
        [''location'' \<mapsto> \<lparr>field_name = Some ''location'', field_type = Some ''geo_point''\<rparr>]\<rparr>"

text \<open>Collaborators that all succeed; a response is a number here.\<close>

definition example_services :: "nat services" where
  "example_services =
     \<lparr>indexPatternService_get = (\<lambda>i. Inr example_pattern),
      searchSource_setup = (\<lambda>q. None),
      getRequestInspectorStats = (\<lambda>q. None),
      searchSource_fetch = (\<lambda>q. Inr 0),
      convertToGeoJson = (\<lambda>r. Inr scenario_features)\<rparr>"

text \<open>Modelled from the spec: the store that keeps a layer's data requests is not among
  the sources. By the spec the metadata of a fetch replaces the previous metadata
  wholesale when the fetch is accepted; the layer then has a source data request with
  this metadata and the features.\<close>

definition accepted :: "layer \<Rightarrow> dataMeta \<Rightarrow> feature list \<Rightarrow> layer" where
  "accepted l m features =
     l\<lparr>sourceDataRequest := Some \<lparr>request_meta = m, request_data = Some features\<rparr>\<rparr>"

text \<open>The same viewport at zoom 6, outside the table.\<close>

definition far_filters :: dataFilters where
  "far_filters = example_filters\<lparr>zoom := 6\<rparr>"

text \<open>Collaborators that fail: the index pattern is gone; the pattern has lost the geo
  field; building the search request throws; the search itself fails; the response
  cannot be converted.\<close>

definition no_pattern_services :: "nat services" where
  "no_pattern_services =
     example_services\<lparr>indexPatternService_get := (\<lambda>i. Inl (Error ''Not Found''))\<rparr>"

definition no_field_services :: "nat services" where
  "no_field_services =
     example_services\<lparr>indexPatternService_get :=
       (\<lambda>i. Inr \<lparr>title = ''logs-*'', fields_byName = Map.empty\<rparr>)\<rparr>"

definition setup_failure_services :: "nat services" where
  "setup_failure_services =
     example_services\<lparr>searchSource_setup := (\<lambda>q. Some (Error ''unknown aggregation''))\<rparr>"

definition search_failure_services :: "nat services" where
  "search_failure_services =
     example_services\<lparr>searchSource_fetch := (\<lambda>q. Inl (Error ''Gateway Timeout''))\<rparr>"

definition convert_failure_services :: "nat services" where
  "convert_failure_services =
     example_services\<lparr>convertToGeoJson := (\<lambda>r. Inl (TypeError ''rows is not iterable''))\<rparr>"

text \<open>The metadata of the first sync of the example layer.\<close>

definition example_meta :: dataMeta where
  "example_meta = newDataMeta (table_of example_rows) example_layer example_filters"

text \<open>The field of the example pattern, the call of the source in the first sync of the
  example layer and the search it builds.\<close>

definition example_geo_field :: field where
  "example_geo_field = \<lparr>field_name = Some ''location'', field_type = Some ''geo_point''\<rparr>"

definition example_args :: fetch_args where
  "example_args = source_args example_layer example_meta"

definition example_query :: searchFields where
  "example_query =
     searchSource_fields example_source example_pattern example_geo_field example_args"

text \<open>The metadata of the sync at zoom 6 and the layer that has accepted it.\<close>

definition far_meta :: dataMeta where
  "far_meta = newDataMeta (table_of example_rows) example_layer far_filters"

definition far_layer :: layer where
  "far_layer = accepted example_layer far_meta scenario_features"

section \<open>The weight pass\<close>

lemma doc_count_Num: "doc_count f = Num v \<Longrightarrow> properties f propertyName = Some (Num v)"
  by (cases "properties f propertyName") (simp_all add: doc_count_def)

text \<open>On finite counts the first loop computes the greatest of the counts and the
  starting value.\<close>

lemma max_loop_counts:
  "map doc_count fs = map Num vs \<Longrightarrow> max_loop fs (Num m) = Num (Max (insert m (set vs)))"
proof (induction fs arbitrary: vs m)
  case Nil
  then show ?case by simp
next
  case (Cons f fs)
  then obtain v ws where vs: "vs = v # ws" and dc: "doc_count f = Num v"
    and rest: "map doc_count fs = map Num ws"
    by (cases vs) auto
  have "max_loop (f # fs) (Num m) = max_loop fs (Num (max v m))"
    by (simp add: doc_count_Num [OF dc])
  also have "\<dots> = Num (Max (insert (max v m) (set ws)))"
    by (rule Cons.IH [OF rest])
  also have "Max (insert (max v m) (set ws)) = Max (insert m (set vs))"
  proof -
    have "insert m (set vs) = insert v (insert m (set ws))" by (auto simp: vs)
    moreover have "Max (insert v (insert m (set ws))) = max v (Max (insert m (set ws)))"
      by (rule Max_insert) auto
    moreover have "Max (insert (max v m) (set ws)) = max v (Max (insert m (set ws)))"
    proof (cases "set ws = {}")
      case True then show ?thesis by simp
    next
      case False
      then show ?thesis by (simp add: max.assoc)
    qed
    ultimately show ?thesis by simp
  qed
  finally show ?case .
qed

lemma weights_counts:
  "map doc_count fs = map Num vs \<Longrightarrow>
   map weight (map (set_weight mx) fs) = map (\<lambda>v. Some (js_div (Num v) mx)) vs"
proof (induction fs arbitrary: vs)
  case Nil then show ?case by simp
next
  case (Cons f fs)
  then obtain v ws where vs: "vs = v # ws" and dc: "doc_count f = Num v"
    and rest: "map doc_count fs = map Num ws"
    by (cases vs) auto
  show ?case using Cons.IH [OF rest]
    by (simp add: vs doc_count_Num [OF dc] weight_def set_weight_def)
qed

lemma normalize_counts:
  assumes "map doc_count fs = map Num vs"
  shows "map weight (normalizeWeights fs) =
         map (\<lambda>v. Some (js_div (Num v) (Num (Max (insert 0 (set vs)))))) vs"
  unfolding normalizeWeights_def Let_def max_loop_counts [OF assms]
  by (rule weights_counts [OF assms])

lemma normalize_weight_nth:
  assumes counts: "map doc_count fs = map Num vs" and i: "i < length fs"
  shows "weight (normalizeWeights fs ! i) =
         Some (js_div (Num (vs ! i)) (Num (Max (insert 0 (set vs)))))"
proof -
  have len: "length vs = length fs"
    using counts by (metis length_map)
  have "map weight (normalizeWeights fs) ! i =
        map (\<lambda>v. Some (js_div (Num v) (Num (Max (insert 0 (set vs)))))) vs ! i"
    by (simp only: normalize_counts [OF counts])
  then show ?thesis using i len by (simp add: normalizeWeights_def Let_def)
qed

lemma doc_count_set_weight: "doc_count (set_weight mx f) = doc_count f"
  by (simp add: doc_count_def set_weight_def propertyName_def scaledPropertyName_def)

lemma doc_count_normalize: "map doc_count (normalizeWeights fs) = map doc_count fs"
  by (simp add: normalizeWeights_def Let_def doc_count_set_weight)

lemma length_normalize: "length (normalizeWeights fs) = length fs"
  by (simp add: normalizeWeights_def Let_def)

lemma Max_insert_zero:
  assumes ne: "vs \<noteq> []" and nn: "\<forall>v\<in>set vs. (0::real) \<le> v"
  shows "Max (insert 0 (set vs)) = Max (set vs)"
proof -
  have "Max (set vs) \<in> set vs" using ne by simp
  then have "0 \<le> Max (set vs)" using nn by blast
  moreover have "Max (insert 0 (set vs)) = max 0 (Max (set vs))"
    using ne by simp
  ultimately show ?thesis by simp
qed

lemma scenario_counts: "map doc_count scenario_features = map Num [5, 10]"
  by (simp add: scenario_features_def doc_count_def)

text \<open>C2: for a non-empty collection of non-negative finite counts \<open>vs\<close> whose greatest
  count is positive, the first loop leaves that greatest count in \<open>max\<close>, every
  feature's weight is its count divided by it and lies between 0 and 1, and a feature
  that holds the greatest count has weight exactly 1. On an empty collection \<open>max\<close>
  stays at its starting value 0.\<close>

theorem normalize_positive_max:
  assumes counts: "map doc_count fs = map Num vs"
    and ne: "fs \<noteq> []"
    and nn: "\<forall>v\<in>set vs. 0 \<le> v"
    and pos: "0 < Max (set vs)"
  shows "max_loop fs (Num 0) = Num (Max (set vs)) \<and>
         (\<forall>i<length fs. weight (normalizeWeights fs ! i) = Some (Num (vs ! i / Max (set vs))) \<and>
            0 \<le> vs ! i / Max (set vs) \<and> vs ! i / Max (set vs) \<le> 1) \<and>
         (\<exists>i<length fs. doc_count (normalizeWeights fs ! i) = Num (Max (set vs)) \<and>
            weight (normalizeWeights fs ! i) = Some (Num 1)) \<and>
         max_loop [] (Num 0) = Num 0"
proof -
  have len: "length vs = length fs"
    using counts by (metis length_map)
  then have vne: "vs \<noteq> []" using ne by auto
  have mx: "Max (insert 0 (set vs)) = Max (set vs)"
    by (rule Max_insert_zero [OF vne nn])
  have m1: "max_loop fs (Num 0) = Num (Max (set vs))"
    using max_loop_counts [OF counts, of 0] mx by simp
  have w: "weight (normalizeWeights fs ! i) = Some (Num (vs ! i / Max (set vs)))"
    if "i < length fs" for i
    using normalize_weight_nth [OF counts that] pos mx by simp
  have bounds: "0 \<le> vs ! i / Max (set vs) \<and> vs ! i / Max (set vs) \<le> 1"
    if "i < length fs" for i
  proof -
    have mem: "vs ! i \<in> set vs" using that len by simp
    then have "0 \<le> vs ! i" using nn by blast
    moreover have "vs ! i \<le> Max (set vs)" using mem by simp
    ultimately show ?thesis using pos by simp
  qed
  have "Max (set vs) \<in> set vs" using vne by simp
  then obtain k where k: "k < length vs" "vs ! k = Max (set vs)"
    by (auto simp: in_set_conv_nth)
  have dk: "doc_count (normalizeWeights fs ! k) = Num (Max (set vs))"
  proof -
    have "map doc_count (normalizeWeights fs) ! k = map Num vs ! k"
      by (simp only: doc_count_normalize counts)
    then show ?thesis using k len by (simp add: length_normalize)
  qed
  have wk: "weight (normalizeWeights fs ! k) = Some (Num 1)"
    using w [of k] k len pos by simp
  show ?thesis using m1 w bounds dk wk k len by auto
qed

theorem normalize_positive_max_witness:
  "max_loop scenario_features (Num 0) = Num 10 \<and>
   weight (normalizeWeights scenario_features ! 0) = Some (Num (1 / 2)) \<and>
   weight (normalizeWeights scenario_features ! 1) = Some (Num 1)"
proof -
  have ne: "scenario_features \<noteq> []" by (simp add: scenario_features_def)
  have nn: "\<forall>v\<in>set [5, 10 :: real]. 0 \<le> v" by simp
  have pos: "0 < Max (set [5, 10 :: real])" by simp
  have len: "length scenario_features = 2" by (simp add: scenario_features_def)
  from normalize_positive_max [OF scenario_counts ne nn pos] len
  show ?thesis by simp
qed

lemma zero_counts: "map doc_count zero_features = map Num [0]"
  by (simp add: zero_features_def doc_count_def)

text \<open>C1, as the code has it: the division of the second loop has no guard. For a
  collection of finite counts \<open>vs\<close>, \<open>max\<close> is the greatest of 0 and the counts; when it
  is positive every weight is the finite number count / max, neither \<open>NaN\<close> nor an
  infinity; when every count is zero, \<open>max\<close> is 0 and every weight is \<open>0 / 0\<close>, which is
  \<open>NaN\<close> and not 0.\<close>

theorem normalize_no_zero_guard:
  assumes counts: "map doc_count fs = map Num vs"
  shows "max_loop fs (Num 0) = Num (Max (insert 0 (set vs))) \<and>
         (0 < Max (insert 0 (set vs)) \<longrightarrow>
            (\<forall>i<length fs. weight (normalizeWeights fs ! i) =
               Some (Num (vs ! i / Max (insert 0 (set vs)))))) \<and>
         ((\<forall>v\<in>set vs. v = 0) \<longrightarrow>
            (\<forall>i<length fs. weight (normalizeWeights fs ! i) = Some NaN))"
proof (intro conjI impI allI)
  show "max_loop fs (Num 0) = Num (Max (insert 0 (set vs)))"
    by (rule max_loop_counts [OF counts])
next
  fix i
  assume pos: "0 < Max (insert 0 (set vs))" and i: "i < length fs"
  show "weight (normalizeWeights fs ! i) = Some (Num (vs ! i / Max (insert 0 (set vs))))"
    using normalize_weight_nth [OF counts i] pos by simp
next
  fix i
  assume zero: "\<forall>v\<in>set vs. v = 0" and i: "i < length fs"
  have len: "length vs = length fs"
    using counts by (metis length_map)
  have "insert 0 (set vs) = {0}" using zero by auto
  then have mx: "Max (insert 0 (set vs)) = 0" by (simp only: Max_singleton)
  have "vs ! i \<in> set vs" using i len by simp
  then have vi: "vs ! i = 0" using zero by blast
  show "weight (normalizeWeights fs ! i) = Some NaN"
    using normalize_weight_nth [OF counts i] by (simp add: mx vi)
qed

theorem normalize_no_zero_guard_witness:
  "weight (normalizeWeights scenario_features ! 1) = Some (Num 1) \<and>
   weight (normalizeWeights zero_features ! 0) = Some NaN"
proof -
  have l2: "length scenario_features = 2" by (simp add: scenario_features_def)
  have l1: "length zero_features = 1" by (simp add: zero_features_def)
  from normalize_no_zero_guard [OF scenario_counts] normalize_no_zero_guard [OF zero_counts] l1 l2
  show ?thesis by simp
qed

text \<open>C1 as stated fails: the one feature of a collection without documents gets the
  weight \<open>NaN\<close>, not 0.\<close>

theorem normalize_all_zero_counterexample:
  "doc_count (zero_features ! 0) = Num 0 \<and>
   weight (normalizeWeights zero_features ! 0) = Some NaN \<and>
   weight (normalizeWeights zero_features ! 0) \<noteq> Some (Num 0)"
  by (simp add: zero_features_def doc_count_def weight_def normalizeWeights_def set_weight_def)

section \<open>The precision\<close>

lemma js_round_near: "\<bar>real_of_int (js_round z) - z\<bar> \<le> 1 / 2"
  unfolding js_round_def by linarith

lemma js_round_3: "js_round 3 = 3"
  by (simp add: js_round_def)

lemma js_round_5: "js_round 5 = 5"
  by (simp add: js_round_def)

lemma js_round_6: "js_round 6 = 6"
  by (simp add: js_round_def)

text \<open>C3, as the code has it: the zoom is rounded to the nearest integer and looked up
  in the table. When the rounded zoom is a key of the table the precision is the entry
  plus the delta, with no clamping of the sum; when it is not a key the entry reads
  \<open>undefined\<close> and the precision is \<open>NaN\<close>.\<close>

theorem targetPrecision_lookup:
  "\<bar>real_of_int (js_round z) - z\<bar> \<le> 1 / 2 \<and>
   (\<forall>p. tbl (js_round z) = Some p \<longrightarrow>
      targetPrecision tbl z delta = Num (of_int (p + delta))) \<and>
   (tbl (js_round z) = None \<longrightarrow> targetPrecision tbl z delta = NaN)"
proof (intro conjI)
  show "\<bar>real_of_int (js_round z) - z\<bar> \<le> 1 / 2"
    by (rule js_round_near)
qed (simp_all add: targetPrecision_def)

theorem targetPrecision_lookup_witness:
  "targetPrecision (table_of example_rows) 3 1 = Num 3 \<and>
   targetPrecision (table_of example_rows) 6 1 = NaN"
proof -
  have a: "table_of example_rows (js_round 3) = Some 2"
    by (simp add: js_round_3 table_of_def example_rows_def)
  have b: "table_of example_rows (js_round 6) = None"
    by (simp add: js_round_6 table_of_def example_rows_def)
  from targetPrecision_lookup [of 3 "table_of example_rows" 1] a
    targetPrecision_lookup [of 6 "table_of example_rows" 1] b
  show ?thesis by simp
qed

text \<open>C3 as stated fails: at zoom 6, outside the table for the zoom levels 0 to 5,
  the code yields \<open>NaN\<close> where the clamped rule yields the last entry plus the delta; at
  zoom 5 with delta 100 the code yields 103 where the clamped rule yields 12, the
  greatest precision of a backend with the range 1 to 12.\<close>

theorem targetPrecision_clamp_counterexample:
  "targetPrecision (table_of example_rows) 6 1 = NaN \<and>
   precision_spec example_rows 1 12 6 1 = 4 \<and>
   targetPrecision (table_of example_rows) 5 100 = Num 103 \<and>
   precision_spec example_rows 1 12 5 100 = 12"
  by (simp add: targetPrecision_def precision_spec_def table_of_def example_rows_def
      js_round_5 js_round_6)

section \<open>The refetch decision\<close>

lemma no_request_refetch: "sourceDataRequest l = None \<Longrightarrow> shouldRefetch tbl l df"
  by (simp add: shouldRefetch_def isSamePrecision_def getMeta_def meta_precision_def
      js_strict_eq_def)

lemma syncData_no_refetch: "\<not> shouldRefetch tbl l df \<Longrightarrow> syncData env tbl l df = []"
  by (simp add: syncData_def syncData_decision_def)

lemma extent_covers_refl: "extent_covers e e"
  by (simp add: extent_covers_def)

text \<open>When the metadata of a sync has been accepted, the same filters need no refetch,
  provided the precision is a number.\<close>

lemma accepted_no_refetch:
  assumes meta: "getMeta l' = Some (newDataMeta tbl l df)"
    and delta: "precisionRefinementDelta l' = precisionRefinementDelta l"
    and buf: "buffer df \<noteq> None"
    and key: "tbl (js_round (zoom df)) \<noteq> None"
  shows "\<not> shouldRefetch tbl l' df"
proof -
  obtain p where p: "tbl (js_round (zoom df)) = Some p" using key by auto
  obtain b where b: "buffer df = Some b" using buf by auto
  have tp: "targetPrecision tbl (zoom df) (precisionRefinementDelta l) =
            Num (of_int (p + precisionRefinementDelta l))"
    using p by (simp add: targetPrecision_def)
  have 1: "isSamePrecision tbl l' df"
    by (simp add: isSamePrecision_def meta delta meta_precision_def newDataMeta_def tp
        js_strict_eq_def)
  have 2: "isSameTime l' df"
    by (simp add: isSameTime_def meta meta_timeFilters_def newDataMeta_def)
  have 3: "\<not> updateDueToExtent (layer_source l') (getMeta l') df"
    by (simp add: updateDueToExtent_def meta meta_buffer_def newDataMeta_def b
        extent_covers_refl)
  have 4: "\<not> updateDueToRefreshTimer l' df"
    by (simp add: updateDueToRefreshTimer_def meta meta_refreshTimer_def newDataMeta_def)
  show ?thesis using 1 2 3 4 by (simp add: shouldRefetch_def)
qed

lemma decision_Fetch:
  "syncData_decision tbl l df = Fetch m \<Longrightarrow>
   m = newDataMeta tbl l df \<and> isVisible l \<and> showAtZoomLevel l (zoom df) \<and>
   buffer df \<noteq> None \<and> shouldRefetch tbl l df"
  by (auto simp: syncData_decision_def split: if_splits)

lemma example_visible:
  "isVisible example_layer \<and> showAtZoomLevel example_layer 3 \<and> showAtZoomLevel example_layer 6"
  by (simp add: example_layer_def showAtZoomLevel_def)

lemma example_first_sync:
  "syncData_decision (table_of example_rows) example_layer example_filters =
   Fetch (newDataMeta (table_of example_rows) example_layer example_filters)"
  using example_visible
  by (simp add: syncData_decision_def no_request_refetch example_layer_def example_filters_def)

lemma example_key: "table_of example_rows (js_round (zoom example_filters)) \<noteq> None"
  by (simp add: example_filters_def js_round_3 table_of_def example_rows_def)

lemma far_first_sync:
  "syncData_decision (table_of example_rows) example_layer far_filters =
   Fetch (newDataMeta (table_of example_rows) example_layer far_filters)"
  using example_visible
  by (simp add: syncData_decision_def no_request_refetch example_layer_def far_filters_def
      example_filters_def)

lemma fetchNewData_eq:
  "fetchNewData env l m =
     StartLoading m # fst (getGeoJsonPointsWithTotalCount env (layer_source l) (source_args l m)) @
       (case snd (getGeoJsonPointsWithTotalCount env (layer_source l) (source_args l m)) of
          Inr data \<Rightarrow> [StopLoading data]
        | Inl error \<Rightarrow> [OnLoadError (message error)])"
  by (simp add: fetchNewData_def case_prod_beta)

lemma syncData_refetch:
  assumes "shouldRefetch tbl l df" and "isVisible l" and "showAtZoomLevel l (zoom df)"
    and "buffer df \<noteq> None"
  shows "syncData env tbl l df = fetchNewData env l (newDataMeta tbl l df)"
  using assms by (auto simp: syncData_def syncData_decision_def)

text \<open>Outside the table the precision is \<open>NaN\<close>, and a refetch is decided whatever the
  previous metadata is.\<close>

lemma out_of_table_refetch:
  assumes "tbl (js_round (zoom df)) = None"
  shows "shouldRefetch tbl l df"
proof -
  have "targetPrecision tbl (zoom df) (precisionRefinementDelta l) = NaN"
    using assms by (simp add: targetPrecision_def)
  then have "\<not> isSamePrecision tbl l df"
    by (simp add: isSamePrecision_def js_strict_eq_def)
  then show ?thesis by (simp add: shouldRefetch_def)
qed

lemma far_key: "table_of example_rows (js_round (zoom far_filters)) = None"
  by (simp add: far_filters_def js_round_6 table_of_def example_rows_def)

text \<open>C4, as the code has it: a refetch is decided exactly when there is no previous
  metadata, or the computed precision is not the previous one, or the computed
  precision is \<open>NaN\<close> (the comparison is \<open>===\<close>, under which \<open>NaN\<close> is not equal to
  itself), or the time range is not equal to the previous one, or the refresh tick is
  truthy and not equal to the previous one, or the extent has to be updated. When none
  of these holds \<open>syncData\<close> does nothing; when one holds and the layer is visible, the
  zoom is in its range and there is a buffer, \<open>syncData\<close> starts loading with the new
  metadata.\<close>

theorem refetch_decision:
  "(shouldRefetch tbl l df \<longleftrightarrow>
      sourceDataRequest l = None \<or>
      meta_precision (getMeta l) \<noteq>
        Some (targetPrecision tbl (zoom df) (precisionRefinementDelta l)) \<or>
      targetPrecision tbl (zoom df) (precisionRefinementDelta l) = NaN \<or>
      meta_timeFilters (getMeta l) \<noteq> timeFilters df \<or>
      (truthy_tick (refreshTimerLastTriggeredAt df) \<and>
         meta_refreshTimer (getMeta l) \<noteq> refreshTimerLastTriggeredAt df) \<or>
      updateDueToExtent (layer_source l) (getMeta l) df) \<and>
   (\<not> shouldRefetch tbl l df \<longrightarrow> syncData env tbl l df = []) \<and>
   (shouldRefetch tbl l df \<and> isVisible l \<and> showAtZoomLevel l (zoom df) \<and>
      buffer df \<noteq> None \<longrightarrow>
      syncData env tbl l df \<noteq> [] \<and>
      hd (syncData env tbl l df) = StartLoading (newDataMeta tbl l df))"
proof (intro conjI impI)
  show "shouldRefetch tbl l df \<longleftrightarrow>
      sourceDataRequest l = None \<or>
      meta_precision (getMeta l) \<noteq>
        Some (targetPrecision tbl (zoom df) (precisionRefinementDelta l)) \<or>
      targetPrecision tbl (zoom df) (precisionRefinementDelta l) = NaN \<or>
      meta_timeFilters (getMeta l) \<noteq> timeFilters df \<or>
      (truthy_tick (refreshTimerLastTriggeredAt df) \<and>
         meta_refreshTimer (getMeta l) \<noteq> refreshTimerLastTriggeredAt df) \<or>
      updateDueToExtent (layer_source l) (getMeta l) df"
  proof (cases "sourceDataRequest l = None")
    case True
    then show ?thesis using no_request_refetch [of l tbl df] by simp
  next
    case False
    then show ?thesis
      by (auto simp: shouldRefetch_def isSamePrecision_def isSameTime_def
          updateDueToRefreshTimer_def js_strict_eq_def)
  qed
next
  assume "\<not> shouldRefetch tbl l df"
  then show "syncData env tbl l df = []" by (rule syncData_no_refetch)
next
  assume g: "shouldRefetch tbl l df \<and> isVisible l \<and> showAtZoomLevel l (zoom df) \<and>
      buffer df \<noteq> None"
  then have eq: "syncData env tbl l df = fetchNewData env l (newDataMeta tbl l df)"
    by (simp add: syncData_refetch)
  show "syncData env tbl l df \<noteq> []" by (simp add: eq fetchNewData_eq)
  show "hd (syncData env tbl l df) = StartLoading (newDataMeta tbl l df)"
    by (simp add: eq fetchNewData_eq)
qed

theorem refetch_decision_witness:
  "shouldRefetch (table_of example_rows) example_layer example_filters \<and>
   hd (syncData example_services (table_of example_rows) example_layer example_filters) =
     StartLoading example_meta \<and>
   \<not> shouldRefetch (table_of example_rows)
       (accepted example_layer example_meta scenario_features) example_filters \<and>
   syncData example_services (table_of example_rows)
     (accepted example_layer example_meta scenario_features) example_filters = []"
proof -
  let ?l = "accepted example_layer example_meta scenario_features"
  have none: "sourceDataRequest example_layer = None" by (simp add: example_layer_def)
  have meta: "getMeta ?l = Some (newDataMeta (table_of example_rows) example_layer example_filters)"
    by (simp add: getMeta_def accepted_def example_meta_def)
  have delta: "precisionRefinementDelta ?l = precisionRefinementDelta example_layer"
    by (simp add: accepted_def)
  have buf: "buffer example_filters \<noteq> None" by (simp add: example_filters_def)
  have vis: "isVisible example_layer \<and> showAtZoomLevel example_layer (zoom example_filters)"
    using example_visible by (simp add: example_filters_def)
  have no: "\<not> shouldRefetch (table_of example_rows) ?l example_filters"
    by (rule accepted_no_refetch [OF meta delta buf example_key])
  note first = refetch_decision
    [of "table_of example_rows" example_layer example_filters example_services]
  note second = refetch_decision
    [of "table_of example_rows" ?l example_filters example_services]
  from first none have re: "shouldRefetch (table_of example_rows) example_layer example_filters"
    by blast
  from first re vis buf
  have "hd (syncData example_services (table_of example_rows) example_layer example_filters) =
     StartLoading (newDataMeta (table_of example_rows) example_layer example_filters)"
    by blast
  moreover from second no
  have "syncData example_services (table_of example_rows) ?l example_filters = []"
    by blast
  ultimately show ?thesis using re no by (simp add: example_meta_def)
qed

text \<open>C4 as stated fails: the layer has accepted the metadata of the sync at zoom 6,
  outside the table. There is previous metadata, the computed precision is the
  previous one, the time range is the previous one, there is no refresh tick and the
  extent needs no update, and yet a refetch is decided.\<close>

theorem refetch_nan_counterexample:
  "sourceDataRequest far_layer \<noteq> None \<and>
   meta_precision (getMeta far_layer) =
     Some (targetPrecision (table_of example_rows) (zoom far_filters)
             (precisionRefinementDelta far_layer)) \<and>
   meta_timeFilters (getMeta far_layer) = timeFilters far_filters \<and>
   refreshTimerLastTriggeredAt far_filters = None \<and>
   \<not> updateDueToExtent (layer_source far_layer) (getMeta far_layer) far_filters \<and>
   shouldRefetch (table_of example_rows) far_layer far_filters"
proof -
  have meta: "getMeta far_layer = Some far_meta"
    by (simp add: getMeta_def far_layer_def accepted_def)
  have delta: "precisionRefinementDelta far_layer = precisionRefinementDelta example_layer"
    by (simp add: far_layer_def accepted_def)
  have 1: "sourceDataRequest far_layer \<noteq> None"
    by (simp add: far_layer_def accepted_def)
  have 2: "meta_precision (getMeta far_layer) =
     Some (targetPrecision (table_of example_rows) (zoom far_filters)
             (precisionRefinementDelta far_layer))"
    by (simp add: meta meta_precision_def far_meta_def newDataMeta_def delta)
  have 3: "meta_timeFilters (getMeta far_layer) = timeFilters far_filters"
    by (simp add: meta meta_timeFilters_def far_meta_def newDataMeta_def)
  have 4: "refreshTimerLastTriggeredAt far_filters = None"
    by (simp add: far_filters_def example_filters_def)
  have 5: "\<not> updateDueToExtent (layer_source far_layer) (getMeta far_layer) far_filters"
    by (simp add: updateDueToExtent_def meta meta_buffer_def far_meta_def newDataMeta_def
        far_filters_def example_filters_def extent_covers_refl)
  have 6: "shouldRefetch (table_of example_rows) far_layer far_filters"
    using far_key by (rule out_of_table_refetch [where tbl = "table_of example_rows"])
  show ?thesis using 1 2 3 4 5 6 by simp
qed

text \<open>C5, as the code has it: a sync has decided to fetch with metadata \<open>m\<close>, and the
  layer then holds \<open>m\<close> as the metadata of its source data request, with the style's
  delta unchanged. When the rounded zoom is a key of the table, a second sync with the
  same filters does not fetch. When it is not a key, the precision is \<open>NaN\<close> and a
  refetch is decided again: the second sync, if the layer is still visible and the zoom
  in its range, fetches with the same metadata once more.\<close>

theorem refetch_after_accepted:
  assumes first: "syncData_decision tbl l df = Fetch m"
    and req: "sourceDataRequest l' = Some r"
    and acc: "request_meta r = m"
    and delta: "precisionRefinementDelta l' = precisionRefinementDelta l"
  shows "(tbl (js_round (zoom df)) \<noteq> None \<longrightarrow>
            \<not> shouldRefetch tbl l' df \<and> syncData_decision tbl l' df = NoFetch \<and>
            syncData env tbl l' df = []) \<and>
         (tbl (js_round (zoom df)) = None \<longrightarrow>
            shouldRefetch tbl l' df \<and>
            (isVisible l' \<and> showAtZoomLevel l' (zoom df) \<longrightarrow>
               syncData_decision tbl l' df = Fetch m \<and> syncData env tbl l' df \<noteq> [] \<and>
               hd (syncData env tbl l' df) = StartLoading m))"
proof (intro conjI impI)
  from decision_Fetch [OF first]
  have m: "m = newDataMeta tbl l df" and buf: "buffer df \<noteq> None" by simp_all
  have meta: "getMeta l' = Some (newDataMeta tbl l df)"
    using req acc m by (simp add: getMeta_def)
  have same: "newDataMeta tbl l' df = m"
    by (simp add: m newDataMeta_def delta)
  {
    assume key: "tbl (js_round (zoom df)) \<noteq> None"
    have no: "\<not> shouldRefetch tbl l' df"
      by (rule accepted_no_refetch [OF meta delta buf key])
    show "\<not> shouldRefetch tbl l' df" by (rule no)
    show "syncData_decision tbl l' df = NoFetch"
      using no by (simp add: syncData_decision_def)
    show "syncData env tbl l' df = []"
      using no by (rule syncData_no_refetch)
  }
  {
    assume out: "tbl (js_round (zoom df)) = None"
    show re: "shouldRefetch tbl l' df"
      using out by (rule out_of_table_refetch [where tbl = tbl])
    assume vis: "isVisible l' \<and> showAtZoomLevel l' (zoom df)"
    show "syncData_decision tbl l' df = Fetch m"
      using re vis buf same by (simp add: syncData_decision_def)
    have eq: "syncData env tbl l' df = fetchNewData env l' m"
      using syncData_refetch [of tbl l' df env] re vis buf same by simp
    show "syncData env tbl l' df \<noteq> []" by (simp add: eq fetchNewData_eq)
    show "hd (syncData env tbl l' df) = StartLoading m" by (simp add: eq fetchNewData_eq)
  }
qed

theorem refetch_after_accepted_witness:
  "syncData example_services (table_of example_rows)
     (accepted example_layer example_meta scenario_features) example_filters = [] \<and>
   hd (syncData example_services (table_of example_rows) far_layer far_filters) =
     StartLoading far_meta"
proof -
  let ?l = "accepted example_layer example_meta scenario_features"
  have req: "sourceDataRequest ?l =
             Some \<lparr>request_meta = example_meta, request_data = Some scenario_features\<rparr>"
    by (simp add: accepted_def)
  have acc: "request_meta \<lparr>request_meta = example_meta, request_data = Some scenario_features\<rparr> =
             newDataMeta (table_of example_rows) example_layer example_filters"
    by (simp add: example_meta_def)
  have delta: "precisionRefinementDelta ?l = precisionRefinementDelta example_layer"
    by (simp add: accepted_def)
  have req': "sourceDataRequest far_layer =
             Some \<lparr>request_meta = far_meta, request_data = Some scenario_features\<rparr>"
    by (simp add: far_layer_def accepted_def)
  have acc': "request_meta \<lparr>request_meta = far_meta, request_data = Some scenario_features\<rparr> =
             newDataMeta (table_of example_rows) example_layer far_filters"
    by (simp add: far_meta_def)
  have delta': "precisionRefinementDelta far_layer = precisionRefinementDelta example_layer"
    by (simp add: far_layer_def accepted_def)
  have vis: "isVisible far_layer \<and> showAtZoomLevel far_layer (zoom far_filters)"
    by (simp add: far_layer_def accepted_def example_layer_def showAtZoomLevel_def
        far_filters_def)
  from refetch_after_accepted
    [where env = example_services, OF example_first_sync req acc delta] example_key
  have a: "syncData example_services (table_of example_rows) ?l example_filters = []"
    by blast
  from refetch_after_accepted
    [where env = example_services, OF far_first_sync req' acc' delta'] far_key vis
  have b: "hd (syncData example_services (table_of example_rows) far_layer far_filters) =
     StartLoading (newDataMeta (table_of example_rows) example_layer far_filters)"
    by blast
  show ?thesis using a b by (simp add: far_meta_def)
qed

text \<open>C5 as stated fails: at zoom 6, outside the table, the precision is \<open>NaN\<close>, which is
  not strictly equal to itself; the second sync with the same filters fetches again.\<close>

theorem refetch_idempotent_counterexample:
  "syncData_decision (table_of example_rows) example_layer far_filters =
     Fetch (newDataMeta (table_of example_rows) example_layer far_filters) \<and>
   syncData_decision (table_of example_rows)
     (accepted example_layer
        (newDataMeta (table_of example_rows) example_layer far_filters) scenario_features)
     far_filters =
     Fetch (newDataMeta (table_of example_rows) example_layer far_filters)"
proof -
  let ?m = "newDataMeta (table_of example_rows) example_layer far_filters"
  let ?l = "accepted example_layer ?m scenario_features"
  have nan: "targetPrecision (table_of example_rows) 6 1 = NaN"
    by (simp add: targetPrecision_def table_of_def example_rows_def js_round_6)
  have "\<not> isSamePrecision (table_of example_rows) ?l far_filters"
    by (simp add: isSamePrecision_def js_strict_eq_def accepted_def example_layer_def
        far_filters_def nan)
  then have re: "shouldRefetch (table_of example_rows) ?l far_filters"
    by (simp add: shouldRefetch_def)
  have vis: "isVisible ?l \<and> showAtZoomLevel ?l (zoom far_filters) \<and> buffer far_filters \<noteq> None"
    by (simp add: accepted_def example_layer_def showAtZoomLevel_def far_filters_def
        example_filters_def)
  have same: "newDataMeta (table_of example_rows) ?l far_filters = ?m"
    by (simp add: newDataMeta_def accepted_def)
  have "syncData_decision (table_of example_rows) ?l far_filters = Fetch ?m"
    using re vis same by (simp add: syncData_decision_def)
  then show ?thesis using far_first_sync by simp
qed

section \<open>The fetch\<close>

text \<open>The source calls the request inspector, always with the layer id and name it was
  given, and runs searches; it always resets the request first.\<close>

lemma source_events:
  "e \<in> set (fst (getGeoJsonPointsWithTotalCount env src args)) \<Longrightarrow>
   e = ResetRequest (arg_layerId args) \<or>
   e = StartRequest (arg_layerId args) (arg_layerName args) \<or>
   e = RequestStats \<or> e = RequestOk \<or> (\<exists>err. e = RequestError err) \<or>
   (\<exists>q. e = SearchFetch q)"
  by (auto simp: getGeoJsonPointsWithTotalCount_def search_catch_def Let_def
      split: sum.splits option.splits)

lemma source_resets:
  "ResetRequest (arg_layerId args) \<in> set (fst (getGeoJsonPointsWithTotalCount env src args))"
  by (auto simp: getGeoJsonPointsWithTotalCount_def search_catch_def Let_def
      split: sum.splits option.splits)

lemma fetchNewData_nonempty: "fetchNewData env l m \<noteq> []"
  by (simp add: fetchNewData_def split: prod.splits)

lemma fetchNewData_StartLoading:
  assumes "StartLoading m \<in> set (fetchNewData env l m')"
  shows "m = m'"
proof -
  have "StartLoading m \<notin> set (fst (getGeoJsonPointsWithTotalCount env (layer_source l) (source_args l m')))"
    using source_events [of "StartLoading m" env "layer_source l" "source_args l m'"] by auto
  then show ?thesis
    using assms by (auto simp: fetchNewData_eq split: sum.splits)
qed

lemma fetchNewData_error:
  assumes "snd (getGeoJsonPointsWithTotalCount env (layer_source l) (source_args l m)) = Inl err"
  shows "last (fetchNewData env l m) = OnLoadError (message err)"
    and "StopLoading d \<notin> set (fetchNewData env l m)"
proof -
  show "last (fetchNewData env l m) = OnLoadError (message err)"
    by (simp add: fetchNewData_eq assms)
  have "StopLoading d \<notin> set (fst (getGeoJsonPointsWithTotalCount env (layer_source l) (source_args l m)))"
    using source_events [of "StopLoading d" env "layer_source l" "source_args l m"] by auto
  then show "StopLoading d \<notin> set (fetchNewData env l m)"
    by (simp add: fetchNewData_eq assms)
qed

lemma byName_own: "fields_byName ip k = Some gf \<Longrightarrow> byName ip k = Some gf"
  by (simp add: byName_def)

lemma byName_missing:
  "fields_byName ip k = None \<Longrightarrow> k \<notin> set object_prototype_keys \<Longrightarrow> byName ip k = None"
  by (simp add: byName_def object_prototype_member_def)

lemma source_no_pattern:
  "indexPatternService_get env (indexPatternId src) = Inl e \<Longrightarrow>
   getGeoJsonPointsWithTotalCount env src args =
     ([ResetRequest (arg_layerId args)],
      Inl (Error (''Unable to find Index pattern '' @ indexPatternId src)))"
  by (simp add: getGeoJsonPointsWithTotalCount_def)

lemma source_no_field:
  "indexPatternService_get env (indexPatternId src) = Inr ip \<Longrightarrow>
   byName ip (geoField src) = None \<Longrightarrow>
   getGeoJsonPointsWithTotalCount env src args =
     ([ResetRequest (arg_layerId args)],
      Inl (Error (''Index pattern '' @ title ip @ '' no longer contains the geo field '' @
             geoField src)))"
  by (simp add: getGeoJsonPointsWithTotalCount_def)

lemma source_setup_failure:
  "indexPatternService_get env (indexPatternId src) = Inr ip \<Longrightarrow>
   byName ip (geoField src) = Some gf \<Longrightarrow>
   searchSource_setup env (searchSource_fields src ip gf args) = Some e \<Longrightarrow>
   getGeoJsonPointsWithTotalCount env src args =
     ([ResetRequest (arg_layerId args)], Inl (TypeError undefined_error_message))"
  by (simp add: getGeoJsonPointsWithTotalCount_def search_catch_def)

lemma source_stats_failure:
  "indexPatternService_get env (indexPatternId src) = Inr ip \<Longrightarrow>
   byName ip (geoField src) = Some gf \<Longrightarrow>
   searchSource_setup env (searchSource_fields src ip gf args) = None \<Longrightarrow>
   getRequestInspectorStats env (searchSource_fields src ip gf args) = Some e \<Longrightarrow>
   getGeoJsonPointsWithTotalCount env src args =
     ([ResetRequest (arg_layerId args),
       StartRequest (arg_layerId args) (arg_layerName args), RequestError e],
      Inl (Error (''Elasticsearch search request failed, error: '' @ message e)))"
  by (simp add: getGeoJsonPointsWithTotalCount_def search_catch_def)

lemma source_search_failure:
  "indexPatternService_get env (indexPatternId src) = Inr ip \<Longrightarrow>
   byName ip (geoField src) = Some gf \<Longrightarrow>
   searchSource_setup env (searchSource_fields src ip gf args) = None \<Longrightarrow>
   getRequestInspectorStats env (searchSource_fields src ip gf args) = None \<Longrightarrow>
   searchSource_fetch env (searchSource_fields src ip gf args) = Inl e \<Longrightarrow>
   getGeoJsonPointsWithTotalCount env src args =
     ([ResetRequest (arg_layerId args),
       StartRequest (arg_layerId args) (arg_layerName args), RequestStats,
       SearchFetch (searchSource_fields src ip gf args), RequestError e],
      Inl (Error (''Elasticsearch search request failed, error: '' @ message e)))"
  by (simp add: getGeoJsonPointsWithTotalCount_def search_catch_def)

lemma source_search_done:
  "indexPatternService_get env (indexPatternId src) = Inr ip \<Longrightarrow>
   byName ip (geoField src) = Some gf \<Longrightarrow>
   searchSource_setup env (searchSource_fields src ip gf args) = None \<Longrightarrow>
   getRequestInspectorStats env (searchSource_fields src ip gf args) = None \<Longrightarrow>
   searchSource_fetch env (searchSource_fields src ip gf args) = Inr resp \<Longrightarrow>
   getGeoJsonPointsWithTotalCount env src args =
     ([ResetRequest (arg_layerId args),
       StartRequest (arg_layerId args) (arg_layerName args), RequestStats,
       SearchFetch (searchSource_fields src ip gf args), RequestStats, RequestOk],
      convertToGeoJson env resp)"
  by (simp add: getGeoJsonPointsWithTotalCount_def)

text \<open>A search that the source runs is the one it has built from the index pattern, the
  geo field it has read and its arguments; and it runs this search once the request
  has been set up and its statistics taken.\<close>

lemma source_searches:
  "SearchFetch q \<in> set (fst (getGeoJsonPointsWithTotalCount env src args)) \<Longrightarrow>
   \<exists>ip gf. indexPatternService_get env (indexPatternId src) = Inr ip \<and>
     byName ip (geoField src) = Some gf \<and> q = searchSource_fields src ip gf args"
  by (auto simp: getGeoJsonPointsWithTotalCount_def search_catch_def Let_def
      split: sum.splits option.splits)

lemma source_runs_search:
  assumes "indexPatternService_get env (indexPatternId src) = Inr ip"
    and "byName ip (geoField src) = Some gf"
    and "searchSource_setup env (searchSource_fields src ip gf args) = None"
    and "getRequestInspectorStats env (searchSource_fields src ip gf args) = None"
  shows "SearchFetch (searchSource_fields src ip gf args) \<in>
         set (fst (getGeoJsonPointsWithTotalCount env src args))"
proof (cases "searchSource_fetch env (searchSource_fields src ip gf args)")
  case (Inl e)
  then show ?thesis by (simp add: source_search_failure [OF assms])
next
  case (Inr resp)
  then show ?thesis by (simp add: source_search_done [OF assms])
qed

lemma syncData_searches:
  assumes "SearchFetch q \<in> set (syncData env tbl l df)"
  shows "SearchFetch q \<in> set (fst (getGeoJsonPointsWithTotalCount env (layer_source l)
           (source_args l (newDataMeta tbl l df))))"
proof (cases "syncData_decision tbl l df")
  case NoFetch
  then show ?thesis using assms by (simp add: syncData_def)
next
  case (Fetch m)
  from decision_Fetch [OF Fetch] have m: "m = newDataMeta tbl l df" by simp
  show ?thesis
    using assms Fetch by (auto simp: syncData_def fetchNewData_eq m split: sum.splits)
qed

lemma example_field:
  "byName example_pattern (geoField (layer_source example_layer)) = Some example_geo_field"
  by (simp add: byName_def example_pattern_def example_layer_def example_source_def
      example_geo_field_def)

lemma example_own_field:
  "fields_byName example_pattern (geoField (layer_source example_layer)) =
   Some example_geo_field"
  by (simp add: example_pattern_def example_layer_def example_source_def
      example_geo_field_def)

lemma example_fetch:
  "syncData example_services (table_of example_rows) example_layer example_filters =
   [StartLoading example_meta, ResetRequest None,
    StartRequest None ''geohash_grid logs'', RequestStats, SearchFetch example_query,
    RequestStats, RequestOk, StopLoading scenario_features]"
proof -
  have src: "layer_source example_layer = example_source" by (simp add: example_layer_def)
  have name: "displayName example_layer = ''geohash_grid logs''" by (simp add: example_layer_def)
  have g: "getGeoJsonPointsWithTotalCount example_services example_source example_args =
     ([ResetRequest (arg_layerId example_args),
       StartRequest (arg_layerId example_args) (arg_layerName example_args), RequestStats,
       SearchFetch (searchSource_fields example_source example_pattern example_geo_field
         example_args), RequestStats, RequestOk],
      convertToGeoJson example_services 0)"
    by (rule source_search_done [where ip = example_pattern and gf = example_geo_field])
       (simp_all add: example_services_def example_field [unfolded src])
  have a: "arg_layerId example_args = None \<and> arg_layerName example_args = ''geohash_grid logs''"
    by (simp add: example_args_def source_args_def name)
  have s: "syncData example_services (table_of example_rows) example_layer example_filters =
     fetchNewData example_services example_layer example_meta"
    by (simp add: syncData_def example_first_sync example_meta_def)
  show ?thesis
    unfolding s fetchNewData_eq src example_args_def [symmetric] g
    by (simp add: a example_query_def example_services_def)
qed

text \<open>C6: \<open>syncData\<close> does anything at all (it starts loading and calls the source) exactly
  when the layer is visible, the zoom is within the zoom range of the layer, the
  buffer is present and a refetch is decided. Without a buffer it does nothing, and
  the metadata a fetch starts with always has a buffer.\<close>

theorem fetch_guard:
  "(syncData env tbl l df \<noteq> [] \<longleftrightarrow>
      isVisible l \<and> showAtZoomLevel l (zoom df) \<and> buffer df \<noteq> None \<and>
      shouldRefetch tbl l df) \<and>
   (buffer df = None \<longrightarrow> syncData env tbl l df = []) \<and>
   (\<forall>m. StartLoading m \<in> set (syncData env tbl l df) \<longrightarrow> buffer m \<noteq> None)"
proof (intro conjI impI allI)
  show "syncData env tbl l df \<noteq> [] \<longleftrightarrow>
      isVisible l \<and> showAtZoomLevel l (zoom df) \<and> buffer df \<noteq> None \<and>
      shouldRefetch tbl l df"
    by (auto simp: syncData_def syncData_decision_def fetchNewData_nonempty)
next
  assume "buffer df = None"
  then show "syncData env tbl l df = []"
    by (simp add: syncData_def syncData_decision_def)
next
  fix m
  assume st: "StartLoading m \<in> set (syncData env tbl l df)"
  show "buffer m \<noteq> None"
  proof (cases "syncData_decision tbl l df")
    case NoFetch
    then show ?thesis using st by (simp add: syncData_def)
  next
    case (Fetch m')
    from decision_Fetch [OF Fetch]
    have m': "m' = newDataMeta tbl l df" and buf: "buffer df \<noteq> None" by simp_all
    have "m = m'"
      using st Fetch fetchNewData_StartLoading [of m env l m'] by (simp add: syncData_def)
    then show ?thesis using m' buf by (simp add: newDataMeta_def)
  qed
qed

theorem fetch_guard_witness:
  "syncData example_services (table_of example_rows) example_layer example_filters \<noteq> [] \<and>
   syncData example_services (table_of example_rows) example_layer
     (example_filters\<lparr>buffer := None\<rparr>) = []"
proof -
  have g: "isVisible example_layer \<and> showAtZoomLevel example_layer (zoom example_filters) \<and>
     buffer example_filters \<noteq> None \<and>
     shouldRefetch (table_of example_rows) example_layer example_filters"
    using example_visible
    by (simp add: example_filters_def no_request_refetch example_layer_def [THEN arg_cong [where f = sourceDataRequest]])
  have b: "buffer (example_filters\<lparr>buffer := None\<rparr>) = None" by simp
  from fetch_guard [of example_services "table_of example_rows" example_layer example_filters]
    fetch_guard [of example_services "table_of example_rows" example_layer
      "example_filters\<lparr>buffer := None\<rparr>"] g b
  show ?thesis by blast
qed

text \<open>The query holds of a document when both filters do.\<close>

lemma filters_hold_both: "filters_hold holds [f, g] d \<longleftrightarrow> holds f d \<and> holds g d"
  by (simp add: filters_hold_def)

text \<open>C7: for every precision, extent and time range, a search that a fetch runs has
  exactly two aggregation specs, the count metric and the geohash grid bucket on the geo
  field with \<open>isFilteredByCollar\<close> false, \<open>useGeocentroid\<close> true, \<open>autoPrecision\<close> false
  and the precision of the caller; its filter is the extent filter and the time filter,
  and a document is in its scope exactly when both hold. The fetch runs this search
  once the index pattern and the geo field are found and the request is set up. In a
  sync of the layer the precision is the one computed from the zoom, the extent is the
  buffer and the time range is that of the filters.\<close>

theorem aggregation_query_shape:
  "(\<forall>q. SearchFetch q \<in> set (fst (getGeoJsonPointsWithTotalCount env src args)) \<longrightarrow>
      (\<exists>ip gf. indexPatternService_get env (indexPatternId src) = Inr ip \<and>
         byName ip (geoField src) = Some gf \<and>
         search_aggs q =
           [\<lparr>agg_id = ''1'', enabled = True, agg_type = ''count'', schema = ''metric'',
             params = NoParams\<rparr>,
            \<lparr>agg_id = ''2'', enabled = True, agg_type = ''geohash_grid'', schema = ''segment'',
             params = GridParams (geoField src) False True False (arg_precision args)\<rparr>] \<and>
         search_filter q =
           [ExtentFilter (arg_extent args) (field_name gf) (field_type gf),
            TimeFilter ip (arg_timeFilters args)] \<and>
         (filters_hold holds (search_filter q) d \<longleftrightarrow>
            holds (ExtentFilter (arg_extent args) (field_name gf) (field_type gf)) d \<and>
            holds (TimeFilter ip (arg_timeFilters args)) d))) \<and>
   (\<forall>ip gf. indexPatternService_get env (indexPatternId src) = Inr ip \<and>
      byName ip (geoField src) = Some gf \<and>
      searchSource_setup env (searchSource_fields src ip gf args) = None \<and>
      getRequestInspectorStats env (searchSource_fields src ip gf args) = None \<longrightarrow>
      SearchFetch (searchSource_fields src ip gf args) \<in>
        set (fst (getGeoJsonPointsWithTotalCount env src args))) \<and>
   (\<forall>q. SearchFetch q \<in> set (syncData env tbl l df) \<longrightarrow>
      length (search_aggs q) = 2 \<and>
      params (search_aggs q ! 1) =
        GridParams (geoField (layer_source l)) False True False
          (targetPrecision tbl (zoom df) (precisionRefinementDelta l)) \<and>
      (\<exists>ip (gf::field). search_filter q =
         [ExtentFilter (buffer df) (field_name gf) (field_type gf),
          TimeFilter ip (timeFilters df)]))"
proof -
  have one: "\<exists>ip gf. indexPatternService_get env (indexPatternId src) = Inr ip \<and>
         byName ip (geoField src) = Some gf \<and>
         search_aggs q =
           [\<lparr>agg_id = ''1'', enabled = True, agg_type = ''count'', schema = ''metric'',
             params = NoParams\<rparr>,
            \<lparr>agg_id = ''2'', enabled = True, agg_type = ''geohash_grid'', schema = ''segment'',
             params = GridParams (geoField src) False True False (arg_precision args)\<rparr>] \<and>
         search_filter q =
           [ExtentFilter (arg_extent args) (field_name gf) (field_type gf),
            TimeFilter ip (arg_timeFilters args)] \<and>
         (filters_hold holds (search_filter q) d \<longleftrightarrow>
            holds (ExtentFilter (arg_extent args) (field_name gf) (field_type gf)) d \<and>
            holds (TimeFilter ip (arg_timeFilters args)) d)"
    if run: "SearchFetch q \<in> set (fst (getGeoJsonPointsWithTotalCount env src args))" for q
  proof -
    from source_searches [OF run] obtain ip gf
      where ip: "indexPatternService_get env (indexPatternId src) = Inr ip"
        and gf: "byName ip (geoField src) = Some gf"
        and q: "q = searchSource_fields src ip gf args"
      by blast
    have aggs: "search_aggs q =
           [\<lparr>agg_id = ''1'', enabled = True, agg_type = ''count'', schema = ''metric'',
             params = NoParams\<rparr>,
            \<lparr>agg_id = ''2'', enabled = True, agg_type = ''geohash_grid'', schema = ''segment'',
             params = GridParams (geoField src) False True False (arg_precision args)\<rparr>]"
      by (simp add: q searchSource_fields_def makeAggConfigs_def)
    have filters: "search_filter q =
           [ExtentFilter (arg_extent args) (field_name gf) (field_type gf),
            TimeFilter ip (arg_timeFilters args)]"
      by (simp add: q searchSource_fields_def)
    have both: "filters_hold holds (search_filter q) d \<longleftrightarrow>
            holds (ExtentFilter (arg_extent args) (field_name gf) (field_type gf)) d \<and>
            holds (TimeFilter ip (arg_timeFilters args)) d"
      unfolding filters by (rule filters_hold_both)
    show ?thesis using ip gf aggs filters both by blast
  qed
  have two: "SearchFetch (searchSource_fields src ip gf args) \<in>
        set (fst (getGeoJsonPointsWithTotalCount env src args))"
    if "indexPatternService_get env (indexPatternId src) = Inr ip \<and>
      byName ip (geoField src) = Some gf \<and>
      searchSource_setup env (searchSource_fields src ip gf args) = None \<and>
      getRequestInspectorStats env (searchSource_fields src ip gf args) = None" for ip gf
    using that by (simp add: source_runs_search)
  have three: "length (search_aggs q) = 2 \<and>
      params (search_aggs q ! 1) =
        GridParams (geoField (layer_source l)) False True False
          (targetPrecision tbl (zoom df) (precisionRefinementDelta l)) \<and>
      (\<exists>ip (gf::field). search_filter q =
         [ExtentFilter (buffer df) (field_name gf) (field_type gf),
          TimeFilter ip (timeFilters df)])"
    if run: "SearchFetch q \<in> set (syncData env tbl l df)" for q
  proof -
    from source_searches [OF syncData_searches [OF run]] obtain ip gf
      where q: "q = searchSource_fields (layer_source l) ip gf
                      (source_args l (newDataMeta tbl l df))"
      by blast
    have a: "length (search_aggs q) = 2"
      by (simp add: q searchSource_fields_def makeAggConfigs_def)
    have b: "params (search_aggs q ! 1) =
        GridParams (geoField (layer_source l)) False True False
          (targetPrecision tbl (zoom df) (precisionRefinementDelta l))"
      by (simp add: q searchSource_fields_def makeAggConfigs_def source_args_def
          newDataMeta_def)
    have c: "\<exists>ip (gf::field). search_filter q =
         [ExtentFilter (buffer df) (field_name gf) (field_type gf),
          TimeFilter ip (timeFilters df)]"
    proof (intro exI)
      show "search_filter q =
         [ExtentFilter (buffer df) (field_name gf) (field_type gf),
          TimeFilter ip (timeFilters df)]"
        by (simp add: q searchSource_fields_def source_args_def newDataMeta_def)
    qed
    show ?thesis using a b c by (intro conjI)
  qed
  show ?thesis
  proof (intro conjI)
    show "\<forall>q. SearchFetch q \<in> set (fst (getGeoJsonPointsWithTotalCount env src args)) \<longrightarrow>
      (\<exists>ip gf. indexPatternService_get env (indexPatternId src) = Inr ip \<and>
         byName ip (geoField src) = Some gf \<and>
         search_aggs q =
           [\<lparr>agg_id = ''1'', enabled = True, agg_type = ''count'', schema = ''metric'',
             params = NoParams\<rparr>,
            \<lparr>agg_id = ''2'', enabled = True, agg_type = ''geohash_grid'', schema = ''segment'',
             params = GridParams (geoField src) False True False (arg_precision args)\<rparr>] \<and>
         search_filter q =
           [ExtentFilter (arg_extent args) (field_name gf) (field_type gf),
            TimeFilter ip (arg_timeFilters args)] \<and>
         (filters_hold holds (search_filter q) d \<longleftrightarrow>
            holds (ExtentFilter (arg_extent args) (field_name gf) (field_type gf)) d \<and>
            holds (TimeFilter ip (arg_timeFilters args)) d))"
      using one by (intro allI impI)
    show "\<forall>ip gf. indexPatternService_get env (indexPatternId src) = Inr ip \<and>
      byName ip (geoField src) = Some gf \<and>
      searchSource_setup env (searchSource_fields src ip gf args) = None \<and>
      getRequestInspectorStats env (searchSource_fields src ip gf args) = None \<longrightarrow>
      SearchFetch (searchSource_fields src ip gf args) \<in>
        set (fst (getGeoJsonPointsWithTotalCount env src args))"
      using two by (intro allI impI)
    show "\<forall>q. SearchFetch q \<in> set (syncData env tbl l df) \<longrightarrow>
      length (search_aggs q) = 2 \<and>
      params (search_aggs q ! 1) =
        GridParams (geoField (layer_source l)) False True False
          (targetPrecision tbl (zoom df) (precisionRefinementDelta l)) \<and>
      (\<exists>ip (gf::field). search_filter q =
         [ExtentFilter (buffer df) (field_name gf) (field_type gf),
          TimeFilter ip (timeFilters df)])"
      using three by (intro allI impI)
  qed
qed

theorem aggregation_query_shape_witness:
  "SearchFetch example_query \<in>
     set (fst (getGeoJsonPointsWithTotalCount example_services example_source example_args)) \<and>
   length (search_aggs example_query) = 2 \<and>
   search_filter example_query =
     [ExtentFilter (Some example_extent) (Some ''location'') (Some ''geo_point''),
      TimeFilter example_pattern (Some \<lparr>range_from = ''t0'', range_to = ''t1''\<rparr>)]"
proof -
  have src: "layer_source example_layer = example_source" by (simp add: example_layer_def)
  have h: "indexPatternService_get example_services (indexPatternId example_source) =
             Inr example_pattern \<and>
           byName example_pattern (geoField example_source) = Some example_geo_field \<and>
           searchSource_setup example_services
             (searchSource_fields example_source example_pattern example_geo_field
                example_args) = None \<and>
           getRequestInspectorStats example_services
             (searchSource_fields example_source example_pattern example_geo_field
                example_args) = None"
    using example_field by (simp add: example_services_def src)
  note shape = aggregation_query_shape
    [of example_services example_source example_args "\<lambda>f d. True" "0::nat"
      "table_of example_rows" example_layer example_filters]
  from shape h have run: "SearchFetch example_query \<in>
     set (fst (getGeoJsonPointsWithTotalCount example_services example_source example_args))"
    unfolding example_query_def by blast
  from shape run have "\<exists>ip gf.
      indexPatternService_get example_services (indexPatternId example_source) = Inr ip \<and>
      byName ip (geoField example_source) = Some gf \<and>
      search_aggs example_query =
           [\<lparr>agg_id = ''1'', enabled = True, agg_type = ''count'', schema = ''metric'',
             params = NoParams\<rparr>,
            \<lparr>agg_id = ''2'', enabled = True, agg_type = ''geohash_grid'', schema = ''segment'',
             params = GridParams (geoField example_source) False True False
               (arg_precision example_args)\<rparr>] \<and>
      search_filter example_query =
           [ExtentFilter (arg_extent example_args) (field_name gf) (field_type gf),
            TimeFilter ip (arg_timeFilters example_args)]"
    by blast
  then obtain ip gf where
    ip: "indexPatternService_get example_services (indexPatternId example_source) = Inr ip"
    and gf: "byName ip (geoField example_source) = Some gf"
    and aggs: "length (search_aggs example_query) = 2"
    and filters: "search_filter example_query =
           [ExtentFilter (arg_extent example_args) (field_name gf) (field_type gf),
            TimeFilter ip (arg_timeFilters example_args)]"
    by auto
  have ip': "ip = example_pattern" using ip by (simp add: example_services_def)
  have gf': "gf = example_geo_field" using gf h by (simp add: ip')
  have args: "arg_extent example_args = Some example_extent \<and>
              arg_timeFilters example_args = Some \<lparr>range_from = ''t0'', range_to = ''t1''\<rparr>"
    by (simp add: example_args_def source_args_def example_meta_def newDataMeta_def
        example_filters_def)
  show ?thesis using run aggs filters args
    by (simp add: ip' gf' example_geo_field_def)
qed

text \<open>Each of the three messages names its stage.\<close>

lemma starts_with_append: "starts_with p (p @ r)"
  by (simp add: starts_with_def)

lemma ends_with_append: "ends_with x (a @ x)"
  by (simp add: ends_with_def)

lemma names_stage_pattern:
  "names_stage src (''Unable to find Index pattern '' @ indexPatternId src)"
  unfolding names_stage_def by (rule disjI1) (rule refl)

lemma names_stage_field:
  "names_stage src
     (''Index pattern '' @ t @ '' no longer contains the geo field '' @ geoField src)"
proof -
  let ?x = "'' no longer contains the geo field '' @ geoField src"
  have a: "starts_with ''Index pattern '' (''Index pattern '' @ t @ ?x)"
    by (rule starts_with_append)
  have "ends_with ?x ((''Index pattern '' @ t) @ ?x)"
    by (rule ends_with_append)
  then have b: "ends_with ?x (''Index pattern '' @ t @ ?x)"
    by (simp only: append_assoc)
  show ?thesis unfolding names_stage_def using a b by blast
qed

lemma names_stage_search:
  "names_stage src (''Elasticsearch search request failed, error: '' @ m)"
  unfolding names_stage_def using starts_with_append by blast

text \<open>C8, as the code has it: a fetch that fails is reported through \<open>onLoadError\<close>, as
  the last thing the fetch does, and never through \<open>stopLoading\<close>: whatever error the
  source throws, its message is what \<open>onLoadError\<close> receives. When the index pattern
  cannot be loaded the message names the index pattern id; when the geo field is not
  among the fields of the pattern (and is not a key of \<open>Object.prototype\<close>) the message
  names the pattern and the field; when the request statistics or the search fail once
  the inspector request has been started the message wraps the message of that error.
  When the conversion of the response fails the message is that of the conversion's
  own error, unwrapped.\<close>

theorem fetch_failures_reported:
  "(\<forall>e. indexPatternService_get env (indexPatternId (layer_source l)) = Inl e \<longrightarrow>
      last (fetchNewData env l m) =
        OnLoadError (''Unable to find Index pattern '' @ indexPatternId (layer_source l)) \<and>
      names_stage (layer_source l)
        (''Unable to find Index pattern '' @ indexPatternId (layer_source l))) \<and>
   (\<forall>ip. indexPatternService_get env (indexPatternId (layer_source l)) = Inr ip \<and>
      fields_byName ip (geoField (layer_source l)) = None \<and>
      geoField (layer_source l) \<notin> set object_prototype_keys \<longrightarrow>
      last (fetchNewData env l m) =
        OnLoadError (''Index pattern '' @ title ip @ '' no longer contains the geo field '' @
          geoField (layer_source l)) \<and>
      names_stage (layer_source l)
        (''Index pattern '' @ title ip @ '' no longer contains the geo field '' @
          geoField (layer_source l))) \<and>
   (\<forall>ip gf e. indexPatternService_get env (indexPatternId (layer_source l)) = Inr ip \<and>
      byName ip (geoField (layer_source l)) = Some gf \<and>
      searchSource_setup env (searchSource_fields (layer_source l) ip gf (source_args l m)) = None \<and>
      (getRequestInspectorStats env
         (searchSource_fields (layer_source l) ip gf (source_args l m)) = Some e \<or>
       getRequestInspectorStats env
         (searchSource_fields (layer_source l) ip gf (source_args l m)) = None \<and>
       searchSource_fetch env
         (searchSource_fields (layer_source l) ip gf (source_args l m)) = Inl e) \<longrightarrow>
      last (fetchNewData env l m) =
        OnLoadError (''Elasticsearch search request failed, error: '' @ message e) \<and>
      names_stage (layer_source l)
        (''Elasticsearch search request failed, error: '' @ message e)) \<and>
   (\<forall>ip gf resp e. indexPatternService_get env (indexPatternId (layer_source l)) = Inr ip \<and>
      byName ip (geoField (layer_source l)) = Some gf \<and>
      searchSource_setup env (searchSource_fields (layer_source l) ip gf (source_args l m)) = None \<and>
      getRequestInspectorStats env
        (searchSource_fields (layer_source l) ip gf (source_args l m)) = None \<and>
      searchSource_fetch env
        (searchSource_fields (layer_source l) ip gf (source_args l m)) = Inr resp \<and>
      convertToGeoJson env resp = Inl e \<longrightarrow>
      last (fetchNewData env l m) = OnLoadError (message e)) \<and>
   (\<forall>err. snd (getGeoJsonPointsWithTotalCount env (layer_source l) (source_args l m)) = Inl err \<longrightarrow>
      last (fetchNewData env l m) = OnLoadError (message err) \<and>
      (\<forall>d. StopLoading d \<notin> set (fetchNewData env l m)))"
proof -
  have one: "last (fetchNewData env l m) =
        OnLoadError (''Unable to find Index pattern '' @ indexPatternId (layer_source l)) \<and>
      names_stage (layer_source l)
        (''Unable to find Index pattern '' @ indexPatternId (layer_source l))"
    if "indexPatternService_get env (indexPatternId (layer_source l)) = Inl e" for e
  proof (rule conjI [OF _ names_stage_pattern])
    show "last (fetchNewData env l m) =
        OnLoadError (''Unable to find Index pattern '' @ indexPatternId (layer_source l))"
      using that by (simp add: fetchNewData_eq source_no_pattern)
  qed
  have two: "last (fetchNewData env l m) =
        OnLoadError (''Index pattern '' @ title ip @ '' no longer contains the geo field '' @
          geoField (layer_source l)) \<and>
      names_stage (layer_source l)
        (''Index pattern '' @ title ip @ '' no longer contains the geo field '' @
          geoField (layer_source l))"
    if h: "indexPatternService_get env (indexPatternId (layer_source l)) = Inr ip \<and>
      fields_byName ip (geoField (layer_source l)) = None \<and>
      geoField (layer_source l) \<notin> set object_prototype_keys" for ip
  proof -
    have "byName ip (geoField (layer_source l)) = None"
      using h by (simp add: byName_missing)
    then have "last (fetchNewData env l m) =
        OnLoadError (''Index pattern '' @ title ip @ '' no longer contains the geo field '' @
          geoField (layer_source l))"
      using h by (simp add: fetchNewData_eq source_no_field)
    then show ?thesis by (rule conjI [OF _ names_stage_field])
  qed
  have three: "last (fetchNewData env l m) =
        OnLoadError (''Elasticsearch search request failed, error: '' @ message e) \<and>
      names_stage (layer_source l)
        (''Elasticsearch search request failed, error: '' @ message e)"
    if h: "indexPatternService_get env (indexPatternId (layer_source l)) = Inr ip \<and>
      byName ip (geoField (layer_source l)) = Some gf \<and>
      searchSource_setup env (searchSource_fields (layer_source l) ip gf (source_args l m)) = None \<and>
      (getRequestInspectorStats env
         (searchSource_fields (layer_source l) ip gf (source_args l m)) = Some e \<or>
       getRequestInspectorStats env
         (searchSource_fields (layer_source l) ip gf (source_args l m)) = None \<and>
       searchSource_fetch env
         (searchSource_fields (layer_source l) ip gf (source_args l m)) = Inl e)" for ip gf e
  proof -
    have "snd (getGeoJsonPointsWithTotalCount env (layer_source l) (source_args l m)) =
          Inl (Error (''Elasticsearch search request failed, error: '' @ message e))"
      using h by (auto simp: source_stats_failure source_search_failure)
    then have "last (fetchNewData env l m) =
        OnLoadError (''Elasticsearch search request failed, error: '' @ message e)"
      by (simp add: fetchNewData_eq)
    then show ?thesis by (rule conjI [OF _ names_stage_search])
  qed
  have four: "last (fetchNewData env l m) = OnLoadError (message e)"
    if h: "indexPatternService_get env (indexPatternId (layer_source l)) = Inr ip \<and>
      byName ip (geoField (layer_source l)) = Some gf \<and>
      searchSource_setup env (searchSource_fields (layer_source l) ip gf (source_args l m)) = None \<and>
      getRequestInspectorStats env
        (searchSource_fields (layer_source l) ip gf (source_args l m)) = None \<and>
      searchSource_fetch env
        (searchSource_fields (layer_source l) ip gf (source_args l m)) = Inr resp \<and>
      convertToGeoJson env resp = Inl e" for ip gf resp e
  proof -
    have "snd (getGeoJsonPointsWithTotalCount env (layer_source l) (source_args l m)) = Inl e"
      using h by (simp add: source_search_done)
    then show ?thesis by (rule fetchNewData_error(1))
  qed
  have five: "last (fetchNewData env l m) = OnLoadError (message err) \<and>
      (\<forall>d. StopLoading d \<notin> set (fetchNewData env l m))"
    if "snd (getGeoJsonPointsWithTotalCount env (layer_source l) (source_args l m)) = Inl err"
    for err
    using fetchNewData_error [OF that] by blast
  show ?thesis
  proof (intro conjI)
    show "\<forall>e. indexPatternService_get env (indexPatternId (layer_source l)) = Inl e \<longrightarrow>
      last (fetchNewData env l m) =
        OnLoadError (''Unable to find Index pattern '' @ indexPatternId (layer_source l)) \<and>
      names_stage (layer_source l)
        (''Unable to find Index pattern '' @ indexPatternId (layer_source l))"
      using one by (intro allI impI)
    show "\<forall>ip. indexPatternService_get env (indexPatternId (layer_source l)) = Inr ip \<and>
      fields_byName ip (geoField (layer_source l)) = None \<and>
      geoField (layer_source l) \<notin> set object_prototype_keys \<longrightarrow>
      last (fetchNewData env l m) =
        OnLoadError (''Index pattern '' @ title ip @ '' no longer contains the geo field '' @
          geoField (layer_source l)) \<and>
      names_stage (layer_source l)
        (''Index pattern '' @ title ip @ '' no longer contains the geo field '' @
          geoField (layer_source l))"
      using two by (intro allI impI)
    show "\<forall>ip gf e. indexPatternService_get env (indexPatternId (layer_source l)) = Inr ip \<and>
      byName ip (geoField (layer_source l)) = Some gf \<and>
      searchSource_setup env (searchSource_fields (layer_source l) ip gf (source_args l m)) = None \<and>
      (getRequestInspectorStats env
         (searchSource_fields (layer_source l) ip gf (source_args l m)) = Some e \<or>
       getRequestInspectorStats env
         (searchSource_fields (layer_source l) ip gf (source_args l m)) = None \<and>
       searchSource_fetch env
         (searchSource_fields (layer_source l) ip gf (source_args l m)) = Inl e) \<longrightarrow>
      last (fetchNewData env l m) =
        OnLoadError (''Elasticsearch search request failed, error: '' @ message e) \<and>
      names_stage (layer_source l)
        (''Elasticsearch search request failed, error: '' @ message e)"
      using three by (intro allI impI)
    show "\<forall>ip gf resp e. indexPatternService_get env (indexPatternId (layer_source l)) = Inr ip \<and>
      byName ip (geoField (layer_source l)) = Some gf \<and>
      searchSource_setup env (searchSource_fields (layer_source l) ip gf (source_args l m)) = None \<and>
      getRequestInspectorStats env
        (searchSource_fields (layer_source l) ip gf (source_args l m)) = None \<and>
      searchSource_fetch env
        (searchSource_fields (layer_source l) ip gf (source_args l m)) = Inr resp \<and>
      convertToGeoJson env resp = Inl e \<longrightarrow>
      last (fetchNewData env l m) = OnLoadError (message e)"
      using four by (intro allI impI)
    show "\<forall>err. snd (getGeoJsonPointsWithTotalCount env (layer_source l) (source_args l m)) = Inl err \<longrightarrow>
      last (fetchNewData env l m) = OnLoadError (message err) \<and>
      (\<forall>d. StopLoading d \<notin> set (fetchNewData env l m))"
      using five by (intro allI impI)
  qed
qed

theorem fetch_failures_reported_witness:
  "last (fetchNewData no_pattern_services example_layer example_meta) =
     OnLoadError ''Unable to find Index pattern logs'' \<and>
   last (fetchNewData no_field_services example_layer example_meta) =
     OnLoadError ''Index pattern logs-* no longer contains the geo field location'' \<and>
   last (fetchNewData search_failure_services example_layer example_meta) =
     OnLoadError ''Elasticsearch search request failed, error: Gateway Timeout'' \<and>
   last (fetchNewData convert_failure_services example_layer example_meta) =
     OnLoadError ''rows is not iterable''"
proof -
  let ?q = "searchSource_fields (layer_source example_layer) example_pattern example_geo_field
              (source_args example_layer example_meta)"
  have 1: "indexPatternService_get no_pattern_services (indexPatternId (layer_source example_layer))
           = Inl (Error ''Not Found'')"
    by (simp add: no_pattern_services_def)
  have 2: "indexPatternService_get no_field_services (indexPatternId (layer_source example_layer))
           = Inr \<lparr>title = ''logs-*'', fields_byName = Map.empty\<rparr> \<and>
           fields_byName \<lparr>title = ''logs-*'', fields_byName = Map.empty\<rparr>
             (geoField (layer_source example_layer)) = None \<and>
           geoField (layer_source example_layer) \<notin> set object_prototype_keys"
    by (simp add: no_field_services_def example_layer_def example_source_def
        object_prototype_keys_def)
  have 3: "indexPatternService_get search_failure_services
             (indexPatternId (layer_source example_layer)) = Inr example_pattern \<and>
           byName example_pattern (geoField (layer_source example_layer)) =
             Some example_geo_field \<and>
           searchSource_setup search_failure_services ?q = None \<and>
           (getRequestInspectorStats search_failure_services ?q =
              Some (Error ''Gateway Timeout'') \<or>
            getRequestInspectorStats search_failure_services ?q = None \<and>
            searchSource_fetch search_failure_services ?q = Inl (Error ''Gateway Timeout''))"
    by (simp add: search_failure_services_def example_services_def example_field)
  have 4: "indexPatternService_get convert_failure_services
             (indexPatternId (layer_source example_layer)) = Inr example_pattern \<and>
           byName example_pattern (geoField (layer_source example_layer)) =
             Some example_geo_field \<and>
           searchSource_setup convert_failure_services ?q = None \<and>
           getRequestInspectorStats convert_failure_services ?q = None \<and>
           searchSource_fetch convert_failure_services ?q = Inr 0 \<and>
           convertToGeoJson convert_failure_services 0 = Inl (TypeError ''rows is not iterable'')"
    by (simp add: convert_failure_services_def example_services_def example_field)
  have a: "last (fetchNewData no_pattern_services example_layer example_meta) =
     OnLoadError (''Unable to find Index pattern '' @ indexPatternId (layer_source example_layer))"
    using fetch_failures_reported [of no_pattern_services example_layer example_meta] 1 by blast
  have b: "last (fetchNewData no_field_services example_layer example_meta) =
     OnLoadError (''Index pattern '' @ title \<lparr>title = ''logs-*'', fields_byName = Map.empty\<rparr> @
        '' no longer contains the geo field '' @ geoField (layer_source example_layer))"
    using fetch_failures_reported [of no_field_services example_layer example_meta] 2 by blast
  have c: "last (fetchNewData search_failure_services example_layer example_meta) =
     OnLoadError (''Elasticsearch search request failed, error: '' @ message (Error ''Gateway Timeout''))"
    using fetch_failures_reported [of search_failure_services example_layer example_meta] 3 by blast
  have d: "last (fetchNewData convert_failure_services example_layer example_meta) =
     OnLoadError (message (TypeError ''rows is not iterable''))"
    using fetch_failures_reported [of convert_failure_services example_layer example_meta] 4 by blast
  show ?thesis using a b c d
    by (simp add: example_layer_def example_source_def)
qed

text \<open>C8 as stated fails: when the conversion of the response throws, the message that
  \<open>onLoadError\<close> receives is the conversion's own and names no stage of the fetch.\<close>

theorem fetch_failure_unnamed_counterexample:
  "last (fetchNewData convert_failure_services example_layer example_meta) =
     OnLoadError ''rows is not iterable'' \<and>
   \<not> names_stage (layer_source example_layer) ''rows is not iterable''"
proof -
  have g: "snd (getGeoJsonPointsWithTotalCount convert_failure_services
              (layer_source example_layer) (source_args example_layer example_meta)) =
           Inl (TypeError ''rows is not iterable'')"
    by (simp add: source_search_done [where ip = example_pattern and gf = example_geo_field]
        convert_failure_services_def example_services_def example_field)
  have "last (fetchNewData convert_failure_services example_layer example_meta) =
     OnLoadError ''rows is not iterable''"
    using fetchNewData_error(1) [OF g] by simp
  moreover have "\<not> names_stage (layer_source example_layer) ''rows is not iterable''"
    by (simp add: names_stage_def starts_with_def ends_with_def example_layer_def
        example_source_def)
  ultimately show ?thesis by simp
qed

text \<open>C9: when a statement of the \<open>try\<close> block throws before \<open>inspectorRequest\<close> is
  assigned, the \<open>catch\<close> block calls \<open>error\<close> on \<open>undefined\<close> and throws a \<open>TypeError\<close>:
  the source fails with it and not with the wrapped message of the search failure, the
  inspector is told nothing after the reset, and the layer reports the message of the
  \<open>TypeError\<close>.\<close>

theorem setup_failure_TypeError:
  assumes "indexPatternService_get env (indexPatternId (layer_source l)) = Inr ip"
    and "fields_byName ip (geoField (layer_source l)) = Some gf"
    and "searchSource_setup env (searchSource_fields (layer_source l) ip gf (source_args l m)) = Some e"
  shows "getGeoJsonPointsWithTotalCount env (layer_source l) (source_args l m) =
           ([ResetRequest None], Inl (TypeError undefined_error_message)) \<and>
         snd (getGeoJsonPointsWithTotalCount env (layer_source l) (source_args l m)) \<noteq>
           Inl (Error (''Elasticsearch search request failed, error: '' @ message e)) \<and>
         fetchNewData env l m =
           [StartLoading m, ResetRequest None, OnLoadError undefined_error_message]"
proof -
  have g: "getGeoJsonPointsWithTotalCount env (layer_source l) (source_args l m) =
           ([ResetRequest (arg_layerId (source_args l m))], Inl (TypeError undefined_error_message))"
    by (rule source_setup_failure [OF assms(1) byName_own [OF assms(2)] assms(3)])
  have lid: "arg_layerId (source_args l m) = None" by (simp add: source_args_def)
  show ?thesis using g lid by (simp add: fetchNewData_eq)
qed

theorem setup_failure_TypeError_witness:
  "fetchNewData setup_failure_services example_layer example_meta =
     [StartLoading example_meta, ResetRequest None,
      OnLoadError ''Cannot read property 'error' of undefined'']"
proof -
  have 1: "indexPatternService_get setup_failure_services
             (indexPatternId (layer_source example_layer)) = Inr example_pattern"
    by (simp add: setup_failure_services_def example_services_def)
  have 3: "searchSource_setup setup_failure_services
             (searchSource_fields (layer_source example_layer) example_pattern
                example_geo_field
                (source_args example_layer example_meta)) = Some (Error ''unknown aggregation'')"
    by (simp add: setup_failure_services_def)
  from setup_failure_TypeError [OF 1 example_own_field 3]
  show ?thesis by (simp add: undefined_error_message_def)
qed

text \<open>C10: every call of the request inspector made during a sync, its reset or its
  start, has the layer id \<open>undefined\<close>, never the id of the layer; and whenever the
  sync fetches, the reset is called so.\<close>

theorem layerId_undefined:
  "(\<forall>e\<in>set (syncData env tbl l df). \<forall>i n.
      e = ResetRequest i \<or> e = StartRequest i n \<longrightarrow> i = None \<and> i \<noteq> Some (layer_id l)) \<and>
   (syncData env tbl l df \<noteq> [] \<longrightarrow> ResetRequest None \<in> set (syncData env tbl l df))"
proof -
  have ids: "i = None \<and> i \<noteq> Some (layer_id l)"
    if e: "e \<in> set (syncData env tbl l df)" and k: "e = ResetRequest i \<or> e = StartRequest i n"
    for e i n
  proof (cases "syncData_decision tbl l df")
    case NoFetch
    then show ?thesis using e by (simp add: syncData_def)
  next
    case (Fetch m)
    then have "e \<in> set (fetchNewData env l m)" using e by (simp add: syncData_def)
    then have "e \<in> set (fst (getGeoJsonPointsWithTotalCount env (layer_source l) (source_args l m)))"
      using k by (auto simp: fetchNewData_eq split: sum.splits)
    from source_events [OF this] k have "i = arg_layerId (source_args l m)" by auto
    then show ?thesis by (simp add: source_args_def)
  qed
  have reset: "ResetRequest None \<in> set (syncData env tbl l df)"
    if ne: "syncData env tbl l df \<noteq> []"
  proof (cases "syncData_decision tbl l df")
    case NoFetch
    then show ?thesis using ne by (simp add: syncData_def)
  next
    case (Fetch m)
    have "ResetRequest (arg_layerId (source_args l m)) \<in>
          set (fst (getGeoJsonPointsWithTotalCount env (layer_source l) (source_args l m)))"
      by (rule source_resets)
    then show ?thesis using Fetch by (simp add: syncData_def fetchNewData_eq source_args_def)
  qed
  show ?thesis using ids reset by blast
qed

theorem layerId_undefined_witness:
  "ResetRequest None \<in>
     set (syncData example_services (table_of example_rows) example_layer example_filters) \<and>
   ResetRequest (Some (layer_id example_layer)) \<notin>
     set (syncData example_services (table_of example_rows) example_layer example_filters)"
proof -
  have ne: "syncData example_services (table_of example_rows) example_layer example_filters \<noteq> []"
    by (simp add: example_fetch)
  from layerId_undefined [of example_services "table_of example_rows" example_layer example_filters] ne
  show ?thesis by blast
qed


end
